theory Spec2Isabelle
  imports Complex_Main
begin

section \<open>Message model\<close>

text \<open>
  Go errors are values. \<open>Errorf\<close> is \<^verbatim>\<open>fmt.Errorf\<close> with a plain
  message (a \<^verbatim>\<open>%s\<close> argument is already spliced in), \<open>Wrapf\<close> is
  \<^verbatim>\<open>fmt.Errorf("...: %w", err)\<close>, \<open>Errorf_d\<close> formats one
  integer with \<^verbatim>\<open>%d\<close>, and \<open>ErrNotConnected\<close> is the package's sentinel.
\<close>

datatype error =
    ErrNotConnected
  | Errorf string
  | Wrapf string error
  | Errorf_d string int

text \<open>
  The \<^verbatim>\<open>ID interface{}\<close> field of a message. The client inspects it with
  a type switch (\<^verbatim>\<open>isMatchingID\<close>): nil, \<^verbatim>\<open>int64\<close>,
  \<^verbatim>\<open>float64\<close>, \<^verbatim>\<open>int\<close>, \<^verbatim>\<open>string\<close>, anything else.
  Integers carry their mathematical value. A \<^verbatim>\<open>float64\<close> id comes out of the
  JSON decoder, hence is finite, and carries its exact (rational) value.
\<close>

datatype idval =
    IdNil
  | IdInt64 int
  | IdFloat64 rat
  | IdInt int
  | IdString string
  | IdOther

definition is_int64 :: "int \<Rightarrow> bool" where
  "is_int64 n \<longleftrightarrow> - (2 ^ 63) \<le> n \<and> n < 2 ^ 63"

text \<open>Two's complement wrap-around of a 64-bit signed addition result.\<close>

definition wrap64 :: "int \<Rightarrow> int" where
  "wrap64 n = (n + 2 ^ 63) mod 2 ^ 64 - 2 ^ 63"

text \<open>
  The conversion \<^verbatim>\<open>int64(f)\<close> of a \<^verbatim>\<open>float64\<close>: the fraction is
  discarded (truncation towards zero). Outside the range of \<^verbatim>\<open>int64\<close> Go
  leaves the result to the implementation; the value used here is the one amd64 produces.
\<close>

definition int64_of_float64 :: "rat \<Rightarrow> int" where
  "int64_of_float64 f =
     (let t = (if 0 \<le> f then \<lfloor>f\<rfloor> else \<lceil>f\<rceil>)
      in if is_int64 t then t else - (2 ^ 63))"

subsection \<open>\<^verbatim>\<open>strconv.ParseInt(s, 10, 64)\<close>\<close>

datatype NumError = ErrSyntax | ErrRange

definition digit_of :: "char \<Rightarrow> nat option" where
  "digit_of c =
     (if 48 \<le> (of_char c :: nat) \<and> (of_char c :: nat) \<le> 57
      then Some (of_char c - 48) else None)"

text \<open>
  The digit loop of \<^verbatim>\<open>ParseUint\<close> in base 10 for 64 bits: a byte that is no
  digit is a syntax error, an accumulator that leaves \<^verbatim>\<open>uint64\<close> is a range
  error, whichever comes first from the left.
\<close>

fun ParseUint_loop :: "nat \<Rightarrow> string \<Rightarrow> NumError + nat" where
  "ParseUint_loop n [] = Inr n"
| "ParseUint_loop n (c # cs) =
     (case digit_of c of
        None \<Rightarrow> Inl ErrSyntax
      | Some d \<Rightarrow>
          if 2 ^ 64 \<le> n * 10 + d then Inl ErrRange
          else ParseUint_loop (n * 10 + d) cs)"

definition ParseUint :: "string \<Rightarrow> NumError + nat" where
  "ParseUint s = (if s = [] then Inl ErrSyntax else ParseUint_loop 0 s)"

definition ParseInt :: "string \<Rightarrow> NumError + int" where
  "ParseInt s =
     (if s = [] then Inl ErrSyntax
      else
        let neg = (hd s = CHR ''-'');
            s' = (if hd s = CHR ''+'' \<or> hd s = CHR ''-'' then tl s else s)
        in case ParseUint s' of
             Inl e \<Rightarrow> Inl e
           | Inr un \<Rightarrow>
               if \<not> neg \<and> 2 ^ 63 \<le> un then Inl ErrRange
               else if neg \<and> 2 ^ 63 < un then Inl ErrRange
               else Inr (if neg then - int un else int un))"

subsection \<open>\<^verbatim>\<open>Client.isMatchingID\<close>\<close>

fun isMatchingID :: "idval \<Rightarrow> int \<Rightarrow> bool" where
  "isMatchingID IdNil requestID = False"
| "isMatchingID (IdInt64 i) requestID = (i = requestID)"
| "isMatchingID (IdFloat64 f) requestID = (int64_of_float64 f = requestID)"
| "isMatchingID (IdInt i) requestID = (i = requestID)"
| "isMatchingID (IdString s) requestID =
     (case ParseInt s of Inr parsedID \<Rightarrow> parsedID = requestID | Inl e \<Rightarrow> False)"
| "isMatchingID IdOther requestID = False"

text \<open>
  The claim's words, as definitions of their own: the decimal string of an integer
  (an optional minus sign and the digits, most significant first), and what makes a
  string numeric (an optional sign followed by at least one decimal digit).
\<close>

definition digit_char :: "nat \<Rightarrow> char" where
  "digit_char d = ''0123456789'' ! d"

fun decimal_nat :: "nat \<Rightarrow> string" where
  "decimal_nat n =
     (if n < 10 then [digit_char n] else decimal_nat (n div 10) @ [digit_char (n mod 10)])"

declare decimal_nat.simps [simp del]

definition decimal :: "int \<Rightarrow> string" where
  "decimal n = (if n < 0 then CHR ''-'' # decimal_nat (nat (- n)) else decimal_nat (nat n))"

definition is_digit :: "char \<Rightarrow> bool" where
  "is_digit c \<longleftrightarrow> 48 \<le> (of_char c :: nat) \<and> (of_char c :: nat) \<le> 57"

definition numeric_string :: "string \<Rightarrow> bool" where
  "numeric_string s =
     (case s of
        [] \<Rightarrow> False
      | c # cs \<Rightarrow>
          if c = CHR ''+'' \<or> c = CHR ''-'' then cs \<noteq> [] \<and> list_all is_digit cs
          else list_all is_digit s)"

subsection \<open>Messages\<close>

text \<open>
  Modelled from the spec: the structs of the message package (\<^verbatim>\<open>mcp\<close>), which
  is not part of the sources at hand. A message has an id, a method, params, a result and
  an error (a code and a message); the fields are the ones the client and the transports
  read and write. The payloads the client puts into \<^verbatim>\<open>Params\<close> get one
  constructor for each request struct it builds (the protocol version and the fixed
  capability flags of the initialize request are constants and are left out), and
  \<open>RawParams\<close> is what a peer sends. The type \<open>'j\<close> stands for decoded JSON
  values (\<^verbatim>\<open>interface{}\<close>).
\<close>

record ClientInfo =
  ClientName :: string
  ClientVersion :: string

datatype 'j Params =
    InitializeRequest ClientInfo
  | ListToolsRequest string
  | CallToolRequest string "string \<rightharpoonup> 'j"
  | ListResourcesRequest
  | ListPromptsRequest
  | GetPromptRequest string "string \<rightharpoonup> 'j"
  | ReadResourceRequest string
  | RawParams 'j

record RPCError =
  Code :: int
  ErrMessage :: string

record 'j Message =
  ID :: idval
  Method :: string
  Params :: "'j Params option"
  Result :: "'j option"
  Error :: "RPCError option"

text \<open>
  Modelled from the spec: the constructors \<^verbatim>\<open>mcp.NewRequest\<close> and
  \<^verbatim>\<open>mcp.NewNotification\<close> of the message package, which is not part of the
  sources at hand. A request carries its id, method and params; a notification has a
  method and no id; neither carries a result or an error.
\<close>

definition NewRequest :: "int \<Rightarrow> string \<Rightarrow> 'j Params \<Rightarrow> 'j Message" where
  "NewRequest requestID method params =
     \<lparr>ID = IdInt64 requestID, Method = method, Params = Some params,
      Result = None, Error = None\<rparr>"

definition NewNotification :: "string \<Rightarrow> 'j Params option \<Rightarrow> 'j Message" where
  "NewNotification method params =
     \<lparr>ID = IdNil, Method = method, Params = params, Result = None, Error = None\<rparr>"

section \<open>The transport interface\<close>

text \<open>
  A transport is an object with state \<open>'t\<close> and a method table: the methods the
  client calls and the two HTTP transports implement. \<open>Send\<close> returns the error, if
  any. \<open>Receive\<close> blocks until a message or an error is there; a call that never
  returns is \<open>None\<close>.
\<close>

record ('t, 'j) Transport =
  Connect :: "'t \<Rightarrow> error option \<times> 't"
  Close :: "'t \<Rightarrow> error option \<times> 't"
  IsConnected :: "'t \<Rightarrow> bool"
  Send :: "'j Message \<Rightarrow> 't \<Rightarrow> error option \<times> 't"
  Receive :: "'t \<Rightarrow> ((error + 'j Message) \<times> 't) option"

section \<open>The client\<close>

text \<open>
  Modelled from the spec: the response structs of the message package that the client
  decodes into, with the fields the client reads (the server's name and version, its
  capabilities, the tools of a page and the cursor of the next page).
\<close>

record ServerInfo =
  ServerName :: string
  ServerVersion :: string

record 'caps InitializeResponse =
  ServerInfo :: ServerInfo
  Capabilities :: 'caps

record 'tool ListToolsResponse =
  Tools :: "'tool list"
  NextCursor :: string

text \<open>
  The \<^verbatim>\<open>Client\<close> struct. The logger and the debug flag only write log
  lines and are left out; the operation timeout is part of the deadline argument of each
  operation (below).
\<close>

record ('t, 'caps) Client =
  transport :: 't
  serverInfo :: "ServerInfo option"
  serverCapabilities :: "'caps option"
  connected :: bool
  initialized :: bool
  requestID :: int

definition NewClient :: "'t \<Rightarrow> ('t, 'caps) Client" where
  "NewClient tr =
     \<lparr>transport = tr, serverInfo = None, serverCapabilities = None,
      connected = False, initialized = False, requestID = 0\<rparr>"

definition Client_Connect ::
  "('t, 'j) Transport \<Rightarrow> ('t, 'caps) Client \<Rightarrow> error option \<times> ('t, 'caps) Client" where
  "Client_Connect T c =
     (if connected c then (None, c)
      else case Connect T (transport c) of
             (Some e, t) \<Rightarrow> (Some (Wrapf ''failed to connect'' e), c\<lparr>transport := t\<rparr>)
           | (None, t) \<Rightarrow> (None, c\<lparr>transport := t, connected := True\<rparr>))"

definition Disconnect ::
  "('t, 'j) Transport \<Rightarrow> ('t, 'caps) Client \<Rightarrow> error option \<times> ('t, 'caps) Client" where
  "Disconnect T c =
     (if \<not> connected c then (None, c)
      else case Close T (transport c) of
             (e, t) \<Rightarrow>
               (e, c\<lparr>transport := t, connected := False, initialized := False,
                     serverInfo := None, serverCapabilities := None\<rparr>))"

definition Client_IsConnected :: "('t, 'caps) Client \<Rightarrow> bool" where
  "Client_IsConnected c = connected c"

definition IsInitialized :: "('t, 'caps) Client \<Rightarrow> bool" where
  "IsInitialized c = initialized c"

definition CheckConnection ::
  "('t, 'j) Transport \<Rightarrow> ('t, 'caps) Client \<Rightarrow> error option \<times> ('t, 'caps) Client" where
  "CheckConnection T c =
     (if \<not> IsConnected T (transport c)
      then (Some (Errorf ''transport disconnected''),
            c\<lparr>connected := False, initialized := False\<rparr>)
      else (None, c))"

text \<open>\<^verbatim>\<open>handleMessage\<close> logs a notification and changes nothing.\<close>

definition handleMessage :: "'j Message \<Rightarrow> ('t, 'caps) Client \<Rightarrow> ('t, 'caps) Client" where
  "handleMessage message c = c"

text \<open>
  \<^verbatim>\<open>parseResult\<close> re-encodes the result and decodes it into the target struct.
  The target structs belong to the message package, so the round trip through
  \<^verbatim>\<open>json.Marshal\<close> and \<^verbatim>\<open>json.Unmarshal\<close> for a target type is the
  argument \<open>decode\<close> (\<open>None\<close>: it fails).
\<close>

definition parseResult :: "('j \<Rightarrow> 'a option) \<Rightarrow> 'j option \<Rightarrow> error + 'a" where
  "parseResult decode result =
     (case result of
        None \<Rightarrow> Inl (Errorf ''result is nil'')
      | Some r \<Rightarrow>
          (case decode r of
             None \<Rightarrow> Inl (Errorf ''failed to unmarshal result'')
           | Some target \<Rightarrow> Inr target))"

subsection \<open>\<^verbatim>\<open>Client.sendRequest\<close>\<close>

text \<open>
  \<^verbatim>\<open>sendRequest\<close> in its two phases. The first takes the next id, builds the
  request, checks the transport and sends. The second is the loop
  \<^verbatim>\<open>for { select { case <-responseCtx.Done(): ... default: ... } }\<close>.

  Time is the argument \<open>ctx\<close>: the number of passes of the loop that find
  \<^verbatim>\<open>responseCtx\<close> (the caller's context cut by the client's timeout) still
  live. The pass after them takes the \<^verbatim>\<open>Done\<close> branch. One pass through the
  \<^verbatim>\<open>default\<close> branch is \<open>sendRequest_poll\<close>.
\<close>

definition sendRequest_send ::
  "('t, 'j) Transport \<Rightarrow> string \<Rightarrow> 'j Params \<Rightarrow> ('t, 'caps) Client
     \<Rightarrow> (error + int) \<times> ('t, 'caps) Client" where
  "sendRequest_send T method params c =
     (let rid = wrap64 (requestID c + 1);
          c1 = c\<lparr>requestID := rid\<rparr>;
          request = NewRequest rid method params
      in if \<not> IsConnected T (transport c1)
         then (Inl (Errorf ''transport disconnected''), c1)
         else case Send T request (transport c1) of
                (Some e, t) \<Rightarrow>
                  (Inl (Wrapf ''failed to send request'' e),
                   c1\<lparr>transport := t, connected := False, initialized := False\<rparr>)
              | (None, t) \<Rightarrow> (Inr rid, c1\<lparr>transport := t\<rparr>))"

datatype 'j Poll = Blocked | Done "error + 'j Message" | Again

definition sendRequest_poll ::
  "('t, 'j) Transport \<Rightarrow> int \<Rightarrow> ('t, 'caps) Client \<Rightarrow> 'j Poll \<times> ('t, 'caps) Client" where
  "sendRequest_poll T rid c =
     (case Receive T (transport c) of
        None \<Rightarrow> (Blocked, c)
      | Some (Inl e, t) \<Rightarrow>
          (Done (Inl (Wrapf ''failed to receive response'' e)),
           c\<lparr>transport := t, connected := False, initialized := False\<rparr>)
      | Some (Inr response, t) \<Rightarrow>
          if isMatchingID (ID response) rid
          then (Done (Inr response), c\<lparr>transport := t\<rparr>)
          else (Again, handleMessage response (c\<lparr>transport := t\<rparr>)))"

text \<open>
  The result of an operation is \<open>Some\<close> of what it returns, or \<open>None\<close> when it
  never returns; the client's state comes with it either way.
\<close>

fun sendRequest_wait ::
  "('t, 'j) Transport \<Rightarrow> nat \<Rightarrow> int \<Rightarrow> ('t, 'caps) Client
     \<Rightarrow> (error + 'j Message) option \<times> ('t, 'caps) Client" where
  "sendRequest_wait T 0 rid c = (Some (Inl (Errorf ''request timeout'')), c)"
| "sendRequest_wait T (Suc k) rid c =
     (case sendRequest_poll T rid c of
        (Blocked, c') \<Rightarrow> (None, c')
      | (Done r, c') \<Rightarrow> (Some r, c')
      | (Again, c') \<Rightarrow> sendRequest_wait T k rid c')"

definition sendRequest ::
  "('t, 'j) Transport \<Rightarrow> nat \<Rightarrow> string \<Rightarrow> 'j Params \<Rightarrow> ('t, 'caps) Client
     \<Rightarrow> (error + 'j Message) option \<times> ('t, 'caps) Client" where
  "sendRequest T ctx method params c =
     (case sendRequest_send T method params c of
        (Inl e, c1) \<Rightarrow> (Some (Inl e), c1)
      | (Inr rid, c1) \<Rightarrow> sendRequest_wait T ctx rid c1)"

subsection \<open>The public operations\<close>

text \<open>
  \<^verbatim>\<open>Initialize\<close> returns only an error: \<open>Inr ()\<close> is \<^verbatim>\<open>nil\<close>.
\<close>

definition Initialize ::
  "('t, 'j) Transport \<Rightarrow> ('j \<Rightarrow> 'caps InitializeResponse option) \<Rightarrow> nat \<Rightarrow> ClientInfo
     \<Rightarrow> ('t, 'caps) Client \<Rightarrow> (error + unit) option \<times> ('t, 'caps) Client" where
  "Initialize T decode ctx clientInfo c =
     (if \<not> Client_IsConnected c then (Some (Inl ErrNotConnected), c)
      else case sendRequest T ctx ''initialize'' (InitializeRequest clientInfo) c of
             (None, c1) \<Rightarrow> (None, c1)
           | (Some (Inl e), c1) \<Rightarrow> (Some (Inl (Wrapf ''initialize request failed'' e)), c1)
           | (Some (Inr response), c1) \<Rightarrow>
               (case Error response of
                  Some e \<Rightarrow> (Some (Inl (Errorf (''initialize error: '' @ ErrMessage e))), c1)
                | None \<Rightarrow>
                    (case parseResult decode (Result response) of
                       Inl e \<Rightarrow>
                         (Some (Inl (Wrapf ''failed to parse initialize response'' e)), c1)
                     | Inr initResponse \<Rightarrow>
                         let c2 = c1\<lparr>serverInfo := Some (ServerInfo initResponse),
                                     serverCapabilities := Some (Capabilities initResponse),
                                     initialized := True\<rparr>;
                             notification = NewNotification ''notifications/initialized'' None
                         in case Send T notification (transport c2) of
                              (Some e, t) \<Rightarrow>
                                (Some (Inl (Wrapf ''failed to send initialized notification'' e)),
                                 c2\<lparr>transport := t\<rparr>)
                            | (None, t) \<Rightarrow> (Some (Inr ()), c2\<lparr>transport := t\<rparr>))))"

definition ListToolsWithCursor ::
  "('t, 'j) Transport \<Rightarrow> ('j \<Rightarrow> 'tool ListToolsResponse option) \<Rightarrow> nat \<Rightarrow> string
     \<Rightarrow> ('t, 'caps) Client \<Rightarrow> (error + 'tool list) option \<times> ('t, 'caps) Client" where
  "ListToolsWithCursor T decode ctx cursor c =
     (if \<not> IsInitialized c then (Some (Inl (Errorf ''client not initialized'')), c)
      else case sendRequest T ctx ''tools/list'' (ListToolsRequest cursor) c of
             (None, c1) \<Rightarrow> (None, c1)
           | (Some (Inl e), c1) \<Rightarrow> (Some (Inl (Wrapf ''list tools request failed'' e)), c1)
           | (Some (Inr response), c1) \<Rightarrow>
               (case Error response of
                  Some e \<Rightarrow> (Some (Inl (Errorf (''list tools error: '' @ ErrMessage e))), c1)
                | None \<Rightarrow>
                    (case parseResult decode (Result response) of
                       Inl e \<Rightarrow>
                         (Some (Inl (Wrapf ''failed to parse list tools response'' e)), c1)
                     | Inr listResponse \<Rightarrow> (Some (Inr (Tools listResponse)), c1))))"

definition ListTools ::
  "('t, 'j) Transport \<Rightarrow> ('j \<Rightarrow> 'tool ListToolsResponse option) \<Rightarrow> nat
     \<Rightarrow> ('t, 'caps) Client \<Rightarrow> (error + 'tool list) option \<times> ('t, 'caps) Client" where
  "ListTools T decode ctx c = ListToolsWithCursor T decode ctx '''' c"

definition CallTool ::
  "('t, 'j) Transport \<Rightarrow> ('j \<Rightarrow> 'r option) \<Rightarrow> nat \<Rightarrow> string \<Rightarrow> (string \<rightharpoonup> 'j)
     \<Rightarrow> ('t, 'caps) Client \<Rightarrow> (error + 'r) option \<times> ('t, 'caps) Client" where
  "CallTool T decode ctx name arguments c =
     (if \<not> IsInitialized c then (Some (Inl (Errorf ''client not initialized'')), c)
      else case CheckConnection T c of
             (Some e, c0) \<Rightarrow> (Some (Inl (Wrapf ''connection check failed'' e)), c0)
           | (None, c0) \<Rightarrow>
               (case sendRequest T ctx ''tools/call'' (CallToolRequest name arguments) c0 of
                  (None, c1) \<Rightarrow> (None, c1)
                | (Some (Inl e), c1) \<Rightarrow>
                    (Some (Inl (Wrapf ''call tool request failed'' e)), c1)
                | (Some (Inr response), c1) \<Rightarrow>
                    (case Error response of
                       Some e \<Rightarrow>
                         (Some (Inl (Errorf (''call tool error: '' @ ErrMessage e))), c1)
                     | None \<Rightarrow>
                         (case parseResult decode (Result response) of
                            Inl e \<Rightarrow>
                              (Some (Inl (Wrapf ''failed to parse call tool response'' e)), c1)
                          | Inr callResponse \<Rightarrow> (Some (Inr callResponse), c1)))))"

definition ListResources ::
  "('t, 'j) Transport \<Rightarrow> ('j \<Rightarrow> 'r list option) \<Rightarrow> nat
     \<Rightarrow> ('t, 'caps) Client \<Rightarrow> (error + 'r list) option \<times> ('t, 'caps) Client" where
  "ListResources T decode ctx c =
     (if \<not> IsInitialized c then (Some (Inl (Errorf ''client not initialized'')), c)
      else case sendRequest T ctx ''resources/list'' ListResourcesRequest c of
             (None, c1) \<Rightarrow> (None, c1)
           | (Some (Inl e), c1) \<Rightarrow>
               (Some (Inl (Wrapf ''list resources request failed'' e)), c1)
           | (Some (Inr response), c1) \<Rightarrow>
               (case Error response of
                  Some e \<Rightarrow>
                    (Some (Inl (Errorf (''list resources error: '' @ ErrMessage e))), c1)
                | None \<Rightarrow>
                    (case parseResult decode (Result response) of
                       Inl e \<Rightarrow>
                         (Some (Inl (Wrapf ''failed to parse list resources response'' e)), c1)
                     | Inr resources \<Rightarrow> (Some (Inr resources), c1))))"

definition ListPrompts ::
  "('t, 'j) Transport \<Rightarrow> ('j \<Rightarrow> 'r list option) \<Rightarrow> nat
     \<Rightarrow> ('t, 'caps) Client \<Rightarrow> (error + 'r list) option \<times> ('t, 'caps) Client" where
  "ListPrompts T decode ctx c =
     (if \<not> IsInitialized c then (Some (Inl (Errorf ''client not initialized'')), c)
      else case sendRequest T ctx ''prompts/list'' ListPromptsRequest c of
             (None, c1) \<Rightarrow> (None, c1)
           | (Some (Inl e), c1) \<Rightarrow>
               (Some (Inl (Wrapf ''list prompts request failed'' e)), c1)
           | (Some (Inr response), c1) \<Rightarrow>
               (case Error response of
                  Some e \<Rightarrow>
                    (Some (Inl (Errorf (''list prompts error: '' @ ErrMessage e))), c1)
                | None \<Rightarrow>
                    (case parseResult decode (Result response) of
                       Inl e \<Rightarrow>
                         (Some (Inl (Wrapf ''failed to parse list prompts response'' e)), c1)
                     | Inr prompts \<Rightarrow> (Some (Inr prompts), c1))))"

definition GetPrompt ::
  "('t, 'j) Transport \<Rightarrow> ('j \<Rightarrow> 'r option) \<Rightarrow> nat \<Rightarrow> string \<Rightarrow> (string \<rightharpoonup> 'j)
     \<Rightarrow> ('t, 'caps) Client \<Rightarrow> (error + 'r) option \<times> ('t, 'caps) Client" where
  "GetPrompt T decode ctx name arguments c =
     (if \<not> IsInitialized c then (Some (Inl (Errorf ''client not initialized'')), c)
      else case sendRequest T ctx ''prompts/get'' (GetPromptRequest name arguments) c of
             (None, c1) \<Rightarrow> (None, c1)
           | (Some (Inl e), c1) \<Rightarrow> (Some (Inl (Wrapf ''get prompt request failed'' e)), c1)
           | (Some (Inr response), c1) \<Rightarrow>
               (case Error response of
                  Some e \<Rightarrow> (Some (Inl (Errorf (''get prompt error: '' @ ErrMessage e))), c1)
                | None \<Rightarrow>
                    (case parseResult decode (Result response) of
                       Inl e \<Rightarrow>
                         (Some (Inl (Wrapf ''failed to parse get prompt response'' e)), c1)
                     | Inr promptResponse \<Rightarrow> (Some (Inr promptResponse), c1))))"

definition ReadResource ::
  "('t, 'j) Transport \<Rightarrow> ('j \<Rightarrow> 'r option) \<Rightarrow> nat \<Rightarrow> string
     \<Rightarrow> ('t, 'caps) Client \<Rightarrow> (error + 'r) option \<times> ('t, 'caps) Client" where
  "ReadResource T decode ctx uri c =
     (if \<not> IsInitialized c then (Some (Inl (Errorf ''client not initialized'')), c)
      else case sendRequest T ctx ''resources/read'' (ReadResourceRequest uri) c of
             (None, c1) \<Rightarrow> (None, c1)
           | (Some (Inl e), c1) \<Rightarrow>
               (Some (Inl (Wrapf ''read resource request failed'' e)), c1)
           | (Some (Inr response), c1) \<Rightarrow>
               (case Error response of
                  Some e \<Rightarrow>
                    (Some (Inl (Errorf (''read resource error: '' @ ErrMessage e))), c1)
                | None \<Rightarrow>
                    (case parseResult decode (Result response) of
                       Inl e \<Rightarrow>
                         (Some (Inl (Wrapf ''failed to parse read resource response'' e)), c1)
                     | Inr resourceResponse \<Rightarrow> (Some (Inr resourceResponse), c1))))"

subsection \<open>Goroutines sharing one client\<close>

text \<open>
  Several goroutines may be inside \<^verbatim>\<open>sendRequest\<close> on the same client. Each is
  at one of three points: about to run the send phase, in the wait loop with a number of
  live passes left, or returned. A step runs one goroutine up to its next call of the
  transport; a schedule names the goroutine that takes each step. A goroutine blocked in
  \<^verbatim>\<open>Receive\<close> stays where it is.
\<close>

datatype 'j Goroutine =
    Calling string "'j Params" nat
  | Polling int nat
  | Returned "error + 'j Message"

fun step ::
  "('t, 'j) Transport \<Rightarrow> 'j Goroutine \<Rightarrow> ('t, 'caps) Client
     \<Rightarrow> 'j Goroutine \<times> ('t, 'caps) Client" where
  "step T (Calling method params ctx) c =
     (case sendRequest_send T method params c of
        (Inl e, c') \<Rightarrow> (Returned (Inl e), c')
      | (Inr rid, c') \<Rightarrow> (Polling rid ctx, c'))"
| "step T (Polling rid 0) c = (Returned (Inl (Errorf ''request timeout'')), c)"
| "step T (Polling rid (Suc k)) c =
     (case sendRequest_poll T rid c of
        (Blocked, c') \<Rightarrow> (Polling rid (Suc k), c')
      | (Done r, c') \<Rightarrow> (Returned r, c')
      | (Again, c') \<Rightarrow> (Polling rid k, c'))"
| "step T (Returned r) c = (Returned r, c)"

fun run ::
  "('t, 'j) Transport \<Rightarrow> nat list \<Rightarrow> 'j Goroutine list \<times> ('t, 'caps) Client
     \<Rightarrow> 'j Goroutine list \<times> ('t, 'caps) Client" where
  "run T [] (gs, c) = (gs, c)"
| "run T (i # sched) (gs, c) =
     (if i < length gs
      then case step T (gs ! i) c of (g, c') \<Rightarrow> run T sched (gs[i := g], c')
      else run T sched (gs, c))"

section \<open>The HTTP transports\<close>

subsection \<open>HTTP and library functions\<close>

text \<open>
  An HTTP request as the transports build it, and a response as they read it: the status,
  the headers, and the body. A body is read in one of two ways, and a response carries
  what each of them finds. \<^verbatim>\<open>io.ReadAll\<close> finds the bytes of the body, or the
  error that reading the body to its end runs into. A reader that takes the body piece
  by piece (a \<^verbatim>\<open>bufio.Scanner\<close> on an event stream) finds a \<open>Stream\<close>:
  what its successive calls of \<^verbatim>\<open>Read\<close> return, in order, and what comes after
  the last of them: the end of the stream, an error (the one of the HTTP client's
  timeout among them), or nothing at all, when the stream stays open and silent and a
  further \<^verbatim>\<open>Read\<close> never returns. A call of \<^verbatim>\<open>Read\<close> returns what has
  arrived, at least one byte and at most the free space of the reader's buffer (4096
  bytes for a new scanner).
\<close>

datatype StreamEnd = EndOfStream | StreamError error | StreamIdle

record Stream =
  Reads :: "string list"
  After :: StreamEnd

record HTTPRequest =
  ReqMethod :: string
  ReqURL :: string
  ReqHeader :: "(string \<times> string) list"
  ReqBody :: "string option"

record HTTPResponse =
  StatusCode :: int
  RespHeader :: "(string \<times> string) list"
  RespBody :: string
  RespBodyErr :: "error option"
  RespStream :: Stream

text \<open>\<^verbatim>\<open>resp.Header.Get(key)\<close>: the value, or the empty string.\<close>

definition Header_Get :: "HTTPResponse \<Rightarrow> string \<Rightarrow> string" where
  "Header_Get resp key = (case map_of (RespHeader resp) key of None \<Rightarrow> [] | Some v \<Rightarrow> v)"

definition ReadAll :: "HTTPResponse \<Rightarrow> error + string" where
  "ReadAll resp = (case RespBodyErr resp of Some e \<Rightarrow> Inl e | None \<Rightarrow> Inr (RespBody resp))"

text \<open>
  The \<^verbatim>\<open>http.Client\<close> of a transport together with the network behind it. The
  peer is any function from the requests made so far (the last one being the current
  one) to a response or an I/O error; \<open>wire\<close> records those requests.
\<close>

record HTTPClient =
  peer :: "HTTPRequest list \<Rightarrow> error + HTTPResponse"
  wire :: "HTTPRequest list"

definition Do :: "HTTPRequest \<Rightarrow> HTTPClient \<Rightarrow> (error + HTTPResponse) \<times> HTTPClient" where
  "Do req cl = (peer cl (wire cl @ [req]), cl\<lparr>wire := wire cl @ [req]\<rparr>)"

text \<open>
  Library functions the transports call, taken as they are:
  \<^verbatim>\<open>json.Marshal\<close> and \<^verbatim>\<open>json.Unmarshal\<close> on messages (\<open>None\<close>: an
  error), whether \<^verbatim>\<open>http.NewRequest\<close> accepts a URL, and
  \<^verbatim>\<open>strings.TrimSpace\<close>.
\<close>

record 'j Lib =
  Marshal :: "'j Message \<Rightarrow> string option"
  Unmarshal :: "string \<Rightarrow> 'j Message option"
  URLValid :: "string \<Rightarrow> bool"
  TrimSpace :: "string \<Rightarrow> string"

definition HasPrefix :: "string \<Rightarrow> string \<Rightarrow> bool" where
  "HasPrefix s p \<longleftrightarrow> take (length p) s = p"

subsection \<open>\<^verbatim>\<open>StreamingHTTPTransport\<close>\<close>

record 'j StreamingHTTP =
  sh_baseURL :: string
  sh_endpoint :: string
  sh_client :: HTTPClient
  sh_sessionID :: string
  sh_connected :: bool
  sh_initialized :: bool
  sh_lastResponse :: "'j Message option"

definition NewStreamingHTTPTransport :: "string \<Rightarrow> string \<Rightarrow> HTTPClient \<Rightarrow> 'j StreamingHTTP" where
  "NewStreamingHTTPTransport baseURL endpoint cl =
     \<lparr>sh_baseURL = baseURL, sh_endpoint = endpoint, sh_client = cl, sh_sessionID = [],
      sh_connected = False, sh_initialized = False, sh_lastResponse = None\<rparr>"

definition StreamingHTTP_Connect :: "'j StreamingHTTP \<Rightarrow> error option \<times> 'j StreamingHTTP" where
  "StreamingHTTP_Connect h =
     (if sh_connected h then (None, h) else (None, h\<lparr>sh_connected := True\<rparr>))"

definition StreamingHTTP_Close :: "'j StreamingHTTP \<Rightarrow> error option \<times> 'j StreamingHTTP" where
  "StreamingHTTP_Close h =
     (None, h\<lparr>sh_connected := False, sh_sessionID := [], sh_initialized := False\<rparr>)"

definition StreamingHTTP_IsConnected :: "'j StreamingHTTP \<Rightarrow> bool" where
  "StreamingHTTP_IsConnected h = sh_connected h"

definition StreamingHTTP_request :: "'j StreamingHTTP \<Rightarrow> string \<Rightarrow> HTTPRequest" where
  "StreamingHTTP_request h data =
     \<lparr>ReqMethod = ''POST'', ReqURL = sh_baseURL h @ sh_endpoint h,
      ReqHeader =
        [(''Accept'', ''application/json''), (''Content-Type'', ''application/json'')] @
        (if sh_sessionID h \<noteq> [] then [(''Mcp-Session-Id'', sh_sessionID h)] else []),
      ReqBody = Some data\<rparr>"

definition StreamingHTTP_Send ::
  "'j Lib \<Rightarrow> 'j Message \<Rightarrow> 'j StreamingHTTP \<Rightarrow> error option \<times> 'j StreamingHTTP" where
  "StreamingHTTP_Send lib message h =
     (if \<not> sh_connected h then (Some (Errorf ''transport not connected''), h)
      else case Marshal lib message of
             None \<Rightarrow> (Some (Errorf ''failed to marshal message''), h)
           | Some data \<Rightarrow>
               if \<not> URLValid lib (sh_baseURL h @ sh_endpoint h)
               then (Some (Errorf ''failed to create request''), h)
               else case Do (StreamingHTTP_request h data) (sh_client h) of
                      (Inl e, cl) \<Rightarrow>
                        (Some (Wrapf ''failed to send request'' e), h\<lparr>sh_client := cl\<rparr>)
                    | (Inr resp, cl) \<Rightarrow>
                        let sessionID = Header_Get resp ''Mcp-Session-Id'';
                            h1 = (if sessionID \<noteq> []
                                  then h\<lparr>sh_client := cl, sh_sessionID := sessionID\<rparr>
                                  else h\<lparr>sh_client := cl\<rparr>)
                        in case ReadAll resp of
                             Inl e \<Rightarrow> (Some (Wrapf ''failed to read response'' e), h1)
                           | Inr body \<Rightarrow>
                               if body = [] then (None, h1)
                               else case Unmarshal lib body of
                                      None \<Rightarrow>
                                        (Some (Errorf ''failed to unmarshal response''), h1)
                                    | Some response \<Rightarrow>
                                        (None, h1\<lparr>sh_lastResponse := Some response\<rparr>))"

definition StreamingHTTP_Receive ::
  "'j StreamingHTTP \<Rightarrow> (error + 'j Message) \<times> 'j StreamingHTTP" where
  "StreamingHTTP_Receive h =
     (if \<not> sh_connected h then (Inl (Errorf ''transport not connected''), h)
      else case sh_lastResponse h of
             Some response \<Rightarrow> (Inr response, h\<lparr>sh_lastResponse := None\<rparr>)
           | None \<Rightarrow> (Inl (Errorf ''no response available''), h))"

definition StreamingHTTPTransport :: "'j Lib \<Rightarrow> ('j StreamingHTTP, 'j) Transport" where
  "StreamingHTTPTransport lib =
     \<lparr>Connect = StreamingHTTP_Connect, Close = StreamingHTTP_Close,
      IsConnected = StreamingHTTP_IsConnected, Send = StreamingHTTP_Send lib,
      Receive = (\<lambda>h. Some (StreamingHTTP_Receive h))\<rparr>"

subsection \<open>\<^verbatim>\<open>SSETransport\<close>\<close>

text \<open>
  \<open>sse_sseConnection\<close> is the retained response of the event-stream request: what is
  left of the stream of its body, that is, what \<^verbatim>\<open>Read\<close> has not returned yet.
\<close>

record 'j SSE =
  sse_baseURL :: string
  sse_endpoint :: string
  sse_client :: HTTPClient
  sse_sessionID :: string
  sse_sessionURL :: string
  sse_connected :: bool
  sse_initialized :: bool
  sse_lastResponse :: "'j Message option"
  sse_sseConnection :: "Stream option"

definition NewSSETransport :: "string \<Rightarrow> string \<Rightarrow> HTTPClient \<Rightarrow> 'j SSE" where
  "NewSSETransport baseURL endpoint cl =
     \<lparr>sse_baseURL = baseURL, sse_endpoint = endpoint, sse_client = cl, sse_sessionID = [],
      sse_sessionURL = [], sse_connected = False, sse_initialized = False,
      sse_lastResponse = None, sse_sseConnection = None\<rparr>"

definition SSE_Connect :: "'j SSE \<Rightarrow> error option \<times> 'j SSE" where
  "SSE_Connect h = (if sse_connected h then (None, h) else (None, h\<lparr>sse_connected := True\<rparr>))"

definition SSE_Close :: "'j SSE \<Rightarrow> error option \<times> 'j SSE" where
  "SSE_Close h =
     (None, h\<lparr>sse_sseConnection := None, sse_connected := False, sse_sessionID := [],
              sse_sessionURL := [], sse_initialized := False\<rparr>)"

definition SSE_IsConnected :: "'j SSE \<Rightarrow> bool" where
  "SSE_IsConnected h = sse_connected h"

definition SSE_post :: "'j SSE \<Rightarrow> string \<Rightarrow> HTTPRequest" where
  "SSE_post h data =
     \<lparr>ReqMethod = ''POST'', ReqURL = sse_sessionURL h,
      ReqHeader = [(''Accept'', ''application/json''), (''Content-Type'', ''application/json'')],
      ReqBody = Some data\<rparr>"

definition sendMessageToSession :: "'j Lib \<Rightarrow> 'j Message \<Rightarrow> 'j SSE \<Rightarrow> error option \<times> 'j SSE" where
  "sendMessageToSession lib message h =
     (case Marshal lib message of
        None \<Rightarrow> (Some (Errorf ''failed to marshal message''), h)
      | Some data \<Rightarrow>
          if \<not> URLValid lib (sse_sessionURL h)
          then (Some (Errorf ''failed to create request''), h)
          else case Do (SSE_post h data) (sse_client h) of
                 (Inl e, cl) \<Rightarrow> (Some (Wrapf ''failed to send message'' e), h\<lparr>sse_client := cl\<rparr>)
               | (Inr resp, cl) \<Rightarrow>
                   (case ReadAll resp of
                      Inl e \<Rightarrow> (Some (Wrapf ''failed to read response'' e), h\<lparr>sse_client := cl\<rparr>)
                    | Inr body \<Rightarrow>
                        if body = []
                        then (None, h\<lparr>sse_client := cl, sse_lastResponse := None,
                                       sse_initialized := True\<rparr>)
                        else case Unmarshal lib body of
                               None \<Rightarrow>
                                 (Some (Errorf ''failed to unmarshal response''),
                                  h\<lparr>sse_client := cl\<rparr>)
                             | Some response \<Rightarrow>
                                 (None, h\<lparr>sse_client := cl, sse_lastResponse := Some response,
                                          sse_initialized := True\<rparr>)))"

text \<open>
  Both \<^verbatim>\<open>sendInitializeRequest\<close> and \<^verbatim>\<open>Receive\<close> run the loop
  \<^verbatim>\<open>for scanner.Scan() { line := scanner.Text(); ... }\<close> with a
  \<^verbatim>\<open>bufio.Scanner\<close> of their own, made for that one call, on the body of the
  event-stream response. The scanner splits at line feeds and drops a carriage return
  from the end of a line. It calls \<^verbatim>\<open>Read\<close> only when the bytes it holds contain
  no whole line; it gives up on a line of 65536 bytes without an end; and when the body
  ends it yields the unfinished last line, if there is one.

  In \<open>scan_stream pick acc reads after\<close>, \<open>pick\<close> is the body of the loop
  (\<open>Some v\<close>: it returns with \<open>v\<close>; \<open>None\<close>: on to the next line), \<open>acc\<close> is
  the unfinished line the scanner holds, and \<open>reads\<close> and \<open>after\<close> are the stream.
  \<open>scan_piece\<close> goes through the bytes that one \<^verbatim>\<open>Read\<close> returned. The loop
  ends in one of three ways: it returns with a value (\<open>Found\<close>), the scanner has no
  further line (\<open>Exhausted\<close>), or \<^verbatim>\<open>Read\<close> never returns (\<open>Waiting\<close>).
  \<open>Found\<close> and \<open>Exhausted\<close> come with what is left of the stream. The scanner is
  dropped when the loop ends: the bytes it has read beyond the line it returned with are
  not part of what is left.
\<close>

definition dropCR :: "string \<Rightarrow> string" where
  "dropCR s = (if s \<noteq> [] \<and> last s = CHR 0x0D then butlast s else s)"

datatype 'a Scanned = Found 'a Stream | Exhausted Stream | Waiting

fun scan_piece :: "(string \<Rightarrow> 'a option) \<Rightarrow> string \<Rightarrow> string \<Rightarrow> 'a option \<times> string" where
  "scan_piece pick acc [] = (None, acc)"
| "scan_piece pick acc (c # cs) =
     (if c = CHR 0x0A
      then (case pick (dropCR acc) of
              Some v \<Rightarrow> (Some v, [])
            | None \<Rightarrow> scan_piece pick [] cs)
      else scan_piece pick (acc @ [c]) cs)"

fun scan_stream ::
  "(string \<Rightarrow> 'a option) \<Rightarrow> string \<Rightarrow> string list \<Rightarrow> StreamEnd \<Rightarrow> 'a Scanned" where
  "scan_stream pick acc [] after =
     (if 65536 \<le> length acc then Exhausted \<lparr>Reads = [], After = after\<rparr>
      else case after of
             StreamIdle \<Rightarrow> Waiting
           | _ \<Rightarrow>
               (if acc = [] then Exhausted \<lparr>Reads = [], After = after\<rparr>
                else case pick (dropCR acc) of
                       Some v \<Rightarrow> Found v \<lparr>Reads = [], After = after\<rparr>
                     | None \<Rightarrow> Exhausted \<lparr>Reads = [], After = after\<rparr>))"
| "scan_stream pick acc (r # rs) after =
     (if 65536 \<le> length acc then Exhausted \<lparr>Reads = r # rs, After = after\<rparr>
      else case scan_piece pick acc r of
             (Some v, acc') \<Rightarrow> Found v \<lparr>Reads = rs, After = after\<rparr>
           | (None, acc') \<Rightarrow> scan_stream pick acc' rs after)"

text \<open>
  The loop of \<^verbatim>\<open>sendInitializeRequest\<close>: the first line with the prefix
  \<^verbatim>\<open>data: \<close> gives the session endpoint.
\<close>

definition scanSessionEndpoint :: "'j Lib \<Rightarrow> Stream \<Rightarrow> string Scanned" where
  "scanSessionEndpoint lib body =
     scan_stream
       (\<lambda>line. if HasPrefix line ''data: '' then Some (TrimSpace lib (drop 6 line)) else None)
       [] (Reads body) (After body)"

definition SSE_get :: "string \<Rightarrow> HTTPRequest" where
  "SSE_get sseURL =
     \<lparr>ReqMethod = ''GET'', ReqURL = sseURL,
      ReqHeader = [(''Accept'', ''text/event-stream'')], ReqBody = None\<rparr>"

text \<open>
  \<open>Send\<close> on this transport can wait for the stream, so its result is \<open>Some\<close> of
  what it returns, or \<open>None\<close> when it never returns.
\<close>

definition sendInitializeRequest ::
  "'j Lib \<Rightarrow> 'j Message \<Rightarrow> 'j SSE \<Rightarrow> (error option \<times> 'j SSE) option" where
  "sendInitializeRequest lib message h =
     (let sseURL = sse_baseURL h @ sse_endpoint h
      in if \<not> URLValid lib sseURL then Some (Some (Errorf ''failed to create SSE request''), h)
         else case Do (SSE_get sseURL) (sse_client h) of
                (Inl e, cl) \<Rightarrow>
                  Some (Some (Wrapf ''failed to establish SSE connection'' e),
                        h\<lparr>sse_client := cl\<rparr>)
              | (Inr resp, cl) \<Rightarrow>
                  (case scanSessionEndpoint lib (RespStream resp) of
                     Waiting \<Rightarrow> None
                   | Exhausted rest \<Rightarrow>
                       Some (Some (Errorf ''failed to get session endpoint from SSE''),
                             h\<lparr>sse_client := cl\<rparr>)
                   | Found sessionEndpoint rest \<Rightarrow>
                       Some (sendMessageToSession lib message
                               (h\<lparr>sse_client := cl,
                                  sse_sessionURL := sse_baseURL h @ sessionEndpoint,
                                  sse_sseConnection := Some rest\<rparr>))))"

definition sendNotification :: "'j Lib \<Rightarrow> 'j Message \<Rightarrow> 'j SSE \<Rightarrow> error option \<times> 'j SSE" where
  "sendNotification lib message h =
     (if sse_sessionURL h = [] then (Some (Errorf ''session not established''), h)
      else case Marshal lib message of
             None \<Rightarrow> (Some (Errorf ''failed to marshal message''), h)
           | Some data \<Rightarrow>
               if \<not> URLValid lib (sse_sessionURL h)
               then (Some (Errorf ''failed to create request''), h)
               else case Do (SSE_post h data) (sse_client h) of
                      (Inl e, cl) \<Rightarrow>
                        (Some (Wrapf ''failed to send notification'' e), h\<lparr>sse_client := cl\<rparr>)
                    | (Inr resp, cl) \<Rightarrow>
                        if 400 \<le> StatusCode resp
                        then (Some (Errorf_d ''notification failed with status: '' (StatusCode resp)),
                              h\<lparr>sse_client := cl\<rparr>)
                        else (None, h\<lparr>sse_client := cl\<rparr>))"

definition sendSessionRequest :: "'j Lib \<Rightarrow> 'j Message \<Rightarrow> 'j SSE \<Rightarrow> error option \<times> 'j SSE" where
  "sendSessionRequest lib message h =
     (if sse_sessionURL h = [] then (Some (Errorf ''session not established''), h)
      else sendMessageToSession lib message h)"

definition SSE_Send ::
  "'j Lib \<Rightarrow> 'j Message \<Rightarrow> 'j SSE \<Rightarrow> (error option \<times> 'j SSE) option" where
  "SSE_Send lib message h =
     (if \<not> sse_connected h then Some (Some (Errorf ''transport not connected''), h)
      else if Method message = ''initialize'' \<and> \<not> sse_initialized h
           then sendInitializeRequest lib message h
      else if ID message = IdNil then Some (sendNotification lib message h)
      else Some (sendSessionRequest lib message h))"

text \<open>
  The loop of \<^verbatim>\<open>Receive\<close>: the first line with the prefix \<^verbatim>\<open>data: \<close> whose
  rest decodes as a message gives the response.
\<close>

definition scanEvent :: "'j Lib \<Rightarrow> Stream \<Rightarrow> 'j Message Scanned" where
  "scanEvent lib body =
     scan_stream
       (\<lambda>line. if HasPrefix line ''data: '' then Unmarshal lib (TrimSpace lib (drop 6 line))
               else None)
       [] (Reads body) (After body)"

definition SSE_Receive ::
  "'j Lib \<Rightarrow> 'j SSE \<Rightarrow> ((error + 'j Message) \<times> 'j SSE) option" where
  "SSE_Receive lib h =
     (if \<not> sse_connected h then Some (Inl (Errorf ''transport not connected''), h)
      else case sse_lastResponse h of
             Some response \<Rightarrow> Some (Inr response, h\<lparr>sse_lastResponse := None\<rparr>)
           | None \<Rightarrow>
               (case sse_sseConnection h of
                  None \<Rightarrow> Some (Inl (Errorf ''no response available''), h)
                | Some body \<Rightarrow>
                    (case scanEvent lib body of
                       Waiting \<Rightarrow> None
                     | Exhausted rest \<Rightarrow>
                         Some (Inl (Errorf ''no response available''),
                               h\<lparr>sse_sseConnection := Some rest\<rparr>)
                     | Found response rest \<Rightarrow>
                         Some (Inr response, h\<lparr>sse_sseConnection := Some rest\<rparr>))))"

subsection \<open>Runs of the streaming HTTP transport\<close>

text \<open>
  A run is a sequence of calls of \<open>Send\<close> and \<open>Receive\<close> on one transport.
  The claim's words about such a run, as definitions of their own: a request
  \<open>posts_with_token\<close> when it is a \<^verbatim>\<open>POST\<close> to the given URL whose
  \<^verbatim>\<open>Mcp-Session-Id\<close> header is the given token (no such header for the empty
  token); \<open>next_token\<close> is the token in force after the peer's answer to the last
  request of a wire; and a wire follows the session when every request on it
  posts with the token in force after the answers to the requests before it.
\<close>

datatype 'j Op = OpSend "'j Message" | OpReceive

fun StreamingHTTP_run :: "'j Lib \<Rightarrow> 'j Op list \<Rightarrow> 'j StreamingHTTP \<Rightarrow> 'j StreamingHTTP" where
  "StreamingHTTP_run lib [] h = h"
| "StreamingHTTP_run lib (OpSend message # ops) h =
     StreamingHTTP_run lib ops (snd (StreamingHTTP_Send lib message h))"
| "StreamingHTTP_run lib (OpReceive # ops) h =
     StreamingHTTP_run lib ops (snd (StreamingHTTP_Receive h))"

definition next_token ::
  "(HTTPRequest list \<Rightarrow> error + HTTPResponse) \<Rightarrow> string \<Rightarrow> HTTPRequest list \<Rightarrow> string" where
  "next_token p tok w =
     (case p w of
        Inl e \<Rightarrow> tok
      | Inr resp \<Rightarrow>
          if Header_Get resp ''Mcp-Session-Id'' \<noteq> [] then Header_Get resp ''Mcp-Session-Id''
          else tok)"

definition posts_with_token :: "string \<Rightarrow> string \<Rightarrow> HTTPRequest \<Rightarrow> bool" where
  "posts_with_token url tok r \<longleftrightarrow>
     ReqMethod r = ''POST'' \<and> ReqURL r = url \<and>
     map_of (ReqHeader r) ''Mcp-Session-Id'' = (if tok = [] then None else Some tok)"

fun token_after ::
  "(HTTPRequest list \<Rightarrow> error + HTTPResponse) \<Rightarrow> string \<Rightarrow> HTTPRequest list
     \<Rightarrow> HTTPRequest list \<Rightarrow> string" where
  "token_after p tok seen [] = tok"
| "token_after p tok seen (r # rs) = token_after p (next_token p tok (seen @ [r])) (seen @ [r]) rs"

fun wire_follows ::
  "(HTTPRequest list \<Rightarrow> error + HTTPResponse) \<Rightarrow> string \<Rightarrow> string \<Rightarrow> HTTPRequest list
     \<Rightarrow> HTTPRequest list \<Rightarrow> bool" where
  "wire_follows p url tok seen [] = True"
| "wire_follows p url tok seen (r # rs) =
     (posts_with_token url tok r \<and>
      wire_follows p url (next_token p tok (seen @ [r])) (seen @ [r]) rs)"

text \<open>What every run keeps true of a transport, for the proofs.\<close>

definition session_inv ::
  "(HTTPRequest list \<Rightarrow> error + HTTPResponse) \<Rightarrow> string \<Rightarrow> 'j StreamingHTTP \<Rightarrow> bool" where
  "session_inv p url h \<longleftrightarrow>
     sh_connected h \<and> sh_baseURL h @ sh_endpoint h = url \<and> peer (sh_client h) = p \<and>
     wire_follows p url [] [] (wire (sh_client h)) \<and>
     sh_sessionID h = token_after p [] [] (wire (sh_client h))"

section \<open>Observation and concrete peers\<close>

text \<open>
  \<open>tap T\<close> is the transport \<open>T\<close> with a record of every message handed to
  \<open>Send\<close>, in order. It behaves as \<open>T\<close> does.
\<close>

definition tap :: "('t, 'j) Transport \<Rightarrow> ('j Message list \<times> 't, 'j) Transport" where
  "tap T =
     \<lparr>Connect = (\<lambda>(sent, t). case Connect T t of (e, t') \<Rightarrow> (e, (sent, t'))),
      Close = (\<lambda>(sent, t). case Close T t of (e, t') \<Rightarrow> (e, (sent, t'))),
      IsConnected = (\<lambda>(sent, t). IsConnected T t),
      Send = (\<lambda>message (sent, t).
                case Send T message t of (e, t') \<Rightarrow> (e, (sent @ [message], t'))),
      Receive = (\<lambda>(sent, t).
                   case Receive T t of
                     None \<Rightarrow> None
                   | Some (r, t') \<Rightarrow> Some (r, (sent, t')))\<rparr>"

text \<open>A connected stream on which the peer never says anything: \<open>Receive\<close> blocks.\<close>

definition SilentTransport :: "(unit, 'j) Transport" where
  "SilentTransport =
     \<lparr>Connect = (\<lambda>t. (None, t)), Close = (\<lambda>t. (None, t)), IsConnected = (\<lambda>t. True),
      Send = (\<lambda>message t. (None, t)), Receive = (\<lambda>t. None)\<rparr>"

text \<open>
  A stream on which the peer's messages arrive in a given order, whatever is sent:
  \<open>Receive\<close> takes the next one and blocks when none is left.
\<close>

definition QueueTransport :: "('j Message list, 'j) Transport" where
  "QueueTransport =
     \<lparr>Connect = (\<lambda>t. (None, t)), Close = (\<lambda>t. (None, t)), IsConnected = (\<lambda>t. True),
      Send = (\<lambda>message t. (None, t)),
      Receive = (\<lambda>t. case t of [] \<Rightarrow> None | m # ms \<Rightarrow> Some (Inr m, ms))\<rparr>"

text \<open>
  A server that lists six tools in three pages of two. The transport state is the
  response waiting to be read; a payload is a decoded page.
\<close>

definition tool_page :: "string \<Rightarrow> string list \<times> string" where
  "tool_page cursor =
     (if cursor = [] then ([''t1'', ''t2''], ''p2'')
      else if cursor = ''p2'' then ([''t3'', ''t4''], ''p3'')
      else if cursor = ''p3'' then ([''t5'', ''t6''], [])
      else ([], []))"

definition PagedTransport ::
  "((string list \<times> string) Message option, string list \<times> string) Transport" where
  "PagedTransport =
     \<lparr>Connect = (\<lambda>t. (None, t)), Close = (\<lambda>t. (None, t)), IsConnected = (\<lambda>t. True),
      Send = (\<lambda>message t.
                case Params message of
                  Some (ListToolsRequest cursor) \<Rightarrow>
                    (None, Some \<lparr>ID = ID message, Method = [], Params = None,
                                 Result = Some (tool_page cursor), Error = None\<rparr>)
                | _ \<Rightarrow> (None, t)),
      Receive = (\<lambda>t. case t of None \<Rightarrow> None | Some response \<Rightarrow> Some (Inr response, None))\<rparr>"

definition decode_page :: "string list \<times> string \<Rightarrow> string ListToolsResponse option" where
  "decode_page p = Some \<lparr>Tools = fst p, NextCursor = snd p\<rparr>"

text \<open>
  A small codec for the HTTP examples: a request travels as its method name, and the body
  \<open>reply n\<close> is the response with the number \<open>n\<close> as its id. Trimming removes
  blanks at both ends.
\<close>

definition reply :: "int \<Rightarrow> string Message" where
  "reply n =
     \<lparr>ID = IdFloat64 (of_int n), Method = [], Params = None, Result = Some ''ok'',
      Error = None\<rparr>"

definition trim :: "string \<Rightarrow> string" where
  "trim s = rev (dropWhile (\<lambda>c. c = CHR '' '') (rev (dropWhile (\<lambda>c. c = CHR '' '') s)))"

definition text_lib :: "string Lib" where
  "text_lib =
     \<lparr>Marshal = (\<lambda>message. Some (Method message)),
      Unmarshal = (\<lambda>body.
         if HasPrefix body ''reply ''
         then (case ParseInt (drop 6 body) of Inr n \<Rightarrow> Some (reply n) | Inl e \<Rightarrow> None)
         else None),
      URLValid = (\<lambda>url. True),
      TrimSpace = trim\<rparr>"

text \<open>
  An answer with a complete body, which arrives in one piece and ends, and an answer whose
  body is an event stream that arrives in the given pieces and ends after them.
\<close>

definition whole :: "string \<Rightarrow> Stream" where
  "whole body = \<lparr>Reads = (if body = [] then [] else [body]), After = EndOfStream\<rparr>"

definition ok_response :: "string \<Rightarrow> error + HTTPResponse" where
  "ok_response body =
     Inr \<lparr>StatusCode = 200, RespHeader = [], RespBody = body, RespBodyErr = None,
          RespStream = whole body\<rparr>"

definition event_stream :: "string list \<Rightarrow> error + HTTPResponse" where
  "event_stream pieces =
     Inr \<lparr>StatusCode = 200, RespHeader = [(''Content-Type'', ''text/event-stream'')],
          RespBody = concat pieces, RespBodyErr = None,
          RespStream = \<lparr>Reads = pieces, After = EndOfStream\<rparr>\<rparr>"

text \<open>One server-sent event: its name, its payload and the blank line that ends it.\<close>

definition event :: "string \<Rightarrow> string \<Rightarrow> string" where
  "event name payload =
     ''event: '' @ name @ [CHR 0x0A] @ ''data: '' @ payload @ [CHR 0x0A, CHR 0x0A]"

text \<open>The peer that answers the first request with \<open>reply 1\<close> and every later one with \<open>reply 2\<close>.\<close>

definition numbering_peer :: "HTTPRequest list \<Rightarrow> error + HTTPResponse" where
  "numbering_peer w = (if length w = 1 then ok_response ''reply 1'' else ok_response ''reply 2'')"

text \<open>The peer that accepts every request and answers with an empty body.\<close>

definition quiet_peer :: "HTTPRequest list \<Rightarrow> error + HTTPResponse" where
  "quiet_peer w = ok_response []"

text \<open>The peer that answers the first request and is gone afterwards.\<close>

definition vanishing_peer :: "HTTPRequest list \<Rightarrow> error + HTTPResponse" where
  "vanishing_peer w =
     (if length w = 1 then ok_response ''reply 1'' else Inl (Errorf ''connection reset''))"

text \<open>The peer that answers the first request with \<open>reply 1\<close> and every later one with an empty body.\<close>

definition once_peer :: "HTTPRequest list \<Rightarrow> error + HTTPResponse" where
  "once_peer w = (if length w = 1 then ok_response ''reply 1'' else ok_response [])"

text \<open>
  The peer of an event-stream session: the first request (the \<^verbatim>\<open>GET\<close>) gets an
  event stream that arrives in the given pieces; every later request gets an empty body.
\<close>

definition sse_peer :: "string list \<Rightarrow> HTTPRequest list \<Rightarrow> error + HTTPResponse" where
  "sse_peer pieces w = (if length w = 1 then event_stream pieces else ok_response [])"

definition http_client :: "(HTTPRequest list \<Rightarrow> error + HTTPResponse) \<Rightarrow> HTTPClient" where
  "http_client p = \<lparr>peer = p, wire = []\<rparr>"

text \<open>
  A client on a connected streaming-HTTP transport to the given peer, connected itself,
  with the given \<open>initialized\<close> flag.
\<close>

definition streaming_client ::
  "(HTTPRequest list \<Rightarrow> error + HTTPResponse) \<Rightarrow> bool
     \<Rightarrow> (string StreamingHTTP, unit) Client" where
  "streaming_client p init =
     (NewClient ((NewStreamingHTTPTransport ''http://peer'' ''/mcp'' (http_client p))
                   \<lparr>sh_connected := True\<rparr>))
       \<lparr>connected := True, initialized := init\<rparr>"

definition decode_init :: "string \<Rightarrow> unit InitializeResponse option" where
  "decode_init j =
     Some \<lparr>ServerInfo = \<lparr>ServerName = ''peer'', ServerVersion = j\<rparr>, Capabilities = ()\<rparr>"

text \<open>
  The same client written out field by field, at any point of a run: the requests on the
  wire, the session token, the buffered response, the last request id and the two flags.
\<close>

definition streaming_transport ::
  "(HTTPRequest list \<Rightarrow> error + HTTPResponse) \<Rightarrow> HTTPRequest list \<Rightarrow> string
     \<Rightarrow> string Message option \<Rightarrow> string StreamingHTTP" where
  "streaming_transport p w sid buf =
     \<lparr>sh_baseURL = ''http://peer'', sh_endpoint = ''/mcp'',
      sh_client = \<lparr>peer = p, wire = w\<rparr>, sh_sessionID = sid, sh_connected = True,
      sh_initialized = False, sh_lastResponse = buf\<rparr>"

definition streaming_state ::
  "(HTTPRequest list \<Rightarrow> error + HTTPResponse) \<Rightarrow> HTTPRequest list \<Rightarrow> string
     \<Rightarrow> string Message option \<Rightarrow> int \<Rightarrow> bool \<Rightarrow> bool
     \<Rightarrow> (string StreamingHTTP, unit) Client" where
  "streaming_state p w sid buf rid conn init =
     \<lparr>transport = streaming_transport p w sid buf,
      serverInfo = None, serverCapabilities = None, connected = conn,
      initialized = init, requestID = rid\<rparr>"

text \<open>The request such a transport posts for a body while it has no session token.\<close>

definition json_post :: "string \<Rightarrow> HTTPRequest" where
  "json_post body =
     \<lparr>ReqMethod = ''POST'', ReqURL = ''http://peer/mcp'',
      ReqHeader = [(''Accept'', ''application/json''), (''Content-Type'', ''application/json'')],
      ReqBody = Some body\<rparr>"

text \<open>A connected event-stream transport to the given peer, written out field by field.\<close>

definition sse_transport ::
  "(HTTPRequest list \<Rightarrow> error + HTTPResponse) \<Rightarrow> HTTPRequest list \<Rightarrow> string
     \<Rightarrow> bool \<Rightarrow> string Message option \<Rightarrow> Stream option \<Rightarrow> string SSE" where
  "sse_transport p w url init buf strm =
     \<lparr>sse_baseURL = ''http://peer'', sse_endpoint = ''/sse'',
      sse_client = \<lparr>peer = p, wire = w\<rparr>, sse_sessionID = [], sse_sessionURL = url,
      sse_connected = True, sse_initialized = init, sse_lastResponse = buf,
      sse_sseConnection = strm\<rparr>"

definition sse_get :: HTTPRequest where
  "sse_get =
     \<lparr>ReqMethod = ''GET'', ReqURL = ''http://peer/sse'',
      ReqHeader = [(''Accept'', ''text/event-stream'')], ReqBody = None\<rparr>"

definition sse_session_post :: "string \<Rightarrow> HTTPRequest" where
  "sse_session_post body =
     \<lparr>ReqMethod = ''POST'', ReqURL = ''http://peer/messages?id=7'',
      ReqHeader = [(''Accept'', ''application/json''), (''Content-Type'', ''application/json'')],
      ReqBody = Some body\<rparr>"

text \<open>
  Such a transport to the peer whose stream arrives in the given pieces, after the
  handshake request has been sent: both requests are on the wire, the endpoint is known,
  no response is buffered, and \<open>left\<close> is what is left of the stream.
\<close>

definition sse_after_handshake :: "string list \<Rightarrow> string list \<Rightarrow> string SSE" where
  "sse_after_handshake pieces left =
     sse_transport (sse_peer pieces) [sse_get, sse_session_post ''initialize'']
       ''http://peer/messages?id=7'' True None (Some \<lparr>Reads = left, After = EndOfStream\<rparr>)"

section \<open>Verified properties\<close>

subsection \<open>Identifier matching\<close>

lemma lt10_cases:
  "d < (10::nat) \<Longrightarrow> d = 0 \<or> d = 1 \<or> d = 2 \<or> d = 3 \<or> d = 4 \<or> d = 5 \<or> d = 6 \<or> d = 7 \<or> d = 8 \<or> d = 9"
  by arith

lemma digit_of_digit_char: "d < 10 \<Longrightarrow> digit_of (digit_char d) = Some d"
  by (drule lt10_cases) (auto simp: digit_of_def digit_char_def)

lemma is_digit_digit_char: "d < 10 \<Longrightarrow> is_digit (digit_char d)"
  by (drule lt10_cases) (auto simp: is_digit_def digit_char_def)

lemma is_digit_not_sign: "is_digit c \<Longrightarrow> c \<noteq> CHR ''+'' \<and> c \<noteq> CHR ''-''"
  by (auto simp: is_digit_def)

lemma digit_of_Some_is_digit: "digit_of c = Some d \<Longrightarrow> is_digit c"
  by (auto simp: digit_of_def is_digit_def split: if_splits)

lemma ParseUint_loop_append:
  "ParseUint_loop n (xs @ ys) =
     (case ParseUint_loop n xs of Inl e \<Rightarrow> Inl e | Inr m \<Rightarrow> ParseUint_loop m ys)"
  by (induction xs arbitrary: n) (auto split: option.splits)

lemma ParseUint_loop_digits:
  "ParseUint_loop n cs = Inr v \<Longrightarrow> list_all is_digit cs"
  by (induction cs arbitrary: n)
     (auto split: option.splits if_splits dest: digit_of_Some_is_digit)

lemma decimal_nat_digits: "list_all is_digit (decimal_nat m)"
proof (induction m rule: decimal_nat.induct)
  case (1 n)
  show ?case
  proof (cases "n < 10")
    case True
    then show ?thesis
      by (subst decimal_nat.simps) (simp add: is_digit_digit_char)
  next
    case False
    with 1 show ?thesis
      by (subst decimal_nat.simps) (simp add: is_digit_digit_char)
  qed
qed

lemma decimal_nat_nonempty: "decimal_nat m \<noteq> []"
  by (subst decimal_nat.simps) simp

lemma ParseUint_loop_decimal_nat:
  "m < 2 ^ 64 \<Longrightarrow> ParseUint_loop 0 (decimal_nat m) = Inr m"
proof (induction m rule: decimal_nat.induct)
  case (1 n)
  show ?case
  proof (cases "n < 10")
    case True
    then show ?thesis
      by (subst decimal_nat.simps) (simp add: digit_of_digit_char)
  next
    case False
    have small: "n div 10 < 2 ^ 64" using "1.prems" by simp
    have step: "ParseUint_loop 0 (decimal_nat (n div 10)) = Inr (n div 10)"
      using "1.IH" [OF False small] .
    have recompose: "n div 10 * 10 + n mod 10 = n" by simp
    show ?thesis
      using False "1.prems"
      by (subst decimal_nat.simps)
         (simp add: ParseUint_loop_append step digit_of_digit_char recompose)
  qed
qed

lemma ParseUint_decimal_nat: "m < 2 ^ 64 \<Longrightarrow> ParseUint (decimal_nat m) = Inr m"
  by (simp add: ParseUint_def decimal_nat_nonempty ParseUint_loop_decimal_nat)

lemma hd_decimal_nat: "is_digit (hd (decimal_nat m))"
  using decimal_nat_digits [of m] decimal_nat_nonempty [of m]
  by (cases "decimal_nat m") auto

lemma ParseInt_decimal: "is_int64 n \<Longrightarrow> ParseInt (decimal n) = Inr n"
proof (cases "n < 0")
  case True
  assume r: "is_int64 n"
  have b: "nat (- n) \<le> 2 ^ 63" using r True by (simp add: is_int64_def nat_le_iff)
  then have b': "nat (- n) < 2 ^ 64" by simp
  show ?thesis
    using True b
    by (simp add: ParseInt_def decimal_def ParseUint_decimal_nat [OF b'])
next
  case False
  assume r: "is_int64 n"
  have b: "nat n < 2 ^ 63" using r False by (simp add: is_int64_def nat_less_iff)
  then have b': "nat n < 2 ^ 64" by simp
  have sg: "hd (decimal_nat (nat n)) \<noteq> CHR ''+'' \<and> hd (decimal_nat (nat n)) \<noteq> CHR ''-''"
    using hd_decimal_nat is_digit_not_sign by blast
  show ?thesis
    using False b sg
    by (simp add: ParseInt_def decimal_def decimal_nat_nonempty ParseUint_decimal_nat [OF b'])
qed

lemma ParseUint_digits: "ParseUint s = Inr v \<Longrightarrow> s \<noteq> [] \<and> list_all is_digit s"
  by (auto simp: ParseUint_def split: if_splits dest: ParseUint_loop_digits)

lemma ParseInt_numeric:
  assumes "ParseInt s = Inr v"
  shows "numeric_string s"
proof (cases s)
  case Nil
  with assms show ?thesis by (simp add: ParseInt_def)
next
  case (Cons c cs)
  show ?thesis
  proof (cases "c = CHR ''+'' \<or> c = CHR ''-''")
    case True
    with assms Cons obtain un where "ParseUint cs = Inr un"
      by (auto simp: ParseInt_def split: sum.splits)
    then have "cs \<noteq> [] \<and> list_all is_digit cs" by (rule ParseUint_digits)
    with True Cons show ?thesis by (simp add: numeric_string_def)
  next
    case False
    with assms Cons obtain un where "ParseUint s = Inr un"
      by (auto simp: ParseInt_def split: sum.splits)
    then have "list_all is_digit s" using ParseUint_digits by blast
    with False Cons show ?thesis by (simp add: numeric_string_def)
  qed
qed

lemma int64_of_float64_of_int: "is_int64 n \<Longrightarrow> int64_of_float64 (of_int n) = n"
  by (simp add: int64_of_float64_def)

text \<open>
  Claim C5. A pending request has the \<^verbatim>\<open>int64\<close> id \<open>n\<close>. A response
  whose id is the integer \<open>n\<close> (as \<^verbatim>\<open>int64\<close> or \<^verbatim>\<open>int\<close>), the
  floating-point value \<open>n\<close>, or the decimal string of \<open>n\<close> matches it; a response
  with a nil id matches nothing, and neither does one whose id is a string that is not
  numeric.
\<close>

theorem isMatchingID_representations:
  "is_int64 n \<Longrightarrow>
     isMatchingID (IdInt64 n) n \<and> isMatchingID (IdInt n) n \<and>
     isMatchingID (IdFloat64 (of_int n)) n \<and>
     isMatchingID (IdString (decimal n)) n \<and>
     \<not> isMatchingID IdNil n \<and>
     (\<forall>s. \<not> numeric_string s \<longrightarrow> \<not> isMatchingID (IdString s) n)"
  by (auto simp: int64_of_float64_of_int ParseInt_decimal
           split: sum.splits dest: ParseInt_numeric)

theorem isMatchingID_representations_witness:
  "is_int64 2 \<and>
     isMatchingID (IdInt64 2) 2 \<and> isMatchingID (IdInt 2) 2 \<and>
     isMatchingID (IdFloat64 2) 2 \<and>
     isMatchingID (IdString ''2'') 2 \<and>
     \<not> isMatchingID IdNil 2 \<and>
     \<not> numeric_string ''abc'' \<and> \<not> isMatchingID (IdString ''abc'') 2"
proof -
  have r: "is_int64 2" by (simp add: is_int64_def)
  have d: "decimal 2 = ''2''"
    by (simp add: decimal_def decimal_nat.simps digit_char_def)
  have nn: "\<not> numeric_string ''abc''"
    by (simp add: numeric_string_def is_digit_def)
  from isMatchingID_representations [OF r] nn d r show ?thesis
    by simp
qed

subsection \<open>Evaluating the client on concrete peers\<close>

lemmas client_defs =
  Initialize_def sendRequest_def sendRequest_send_def sendRequest_poll_def
  Client_IsConnected_def IsInitialized_def handleMessage_def parseResult_def
  NewRequest_def NewNotification_def wrap64_def

lemmas streaming_defs =
  StreamingHTTPTransport_def StreamingHTTP_Send_def StreamingHTTP_Receive_def
  StreamingHTTP_IsConnected_def StreamingHTTP_request_def Do_def ReadAll_def Header_Get_def
  text_lib_def ok_response_def HasPrefix_def ParseInt_def ParseUint_def digit_of_def
  reply_def int64_of_float64_def is_int64_def

lemma streaming_client_eq: "streaming_client p i = streaming_state p [] [] None 0 True i"
  by (simp add: streaming_client_def streaming_state_def streaming_transport_def NewClient_def
        NewStreamingHTTPTransport_def http_client_def)

lemma wire_streaming_state:
  "wire (sh_client (transport (streaming_state p w sid buf n cn ini))) = w"
  by (simp add: streaming_state_def streaming_transport_def)

lemma flags_streaming_state:
  "connected (streaming_state p w sid buf n cn ini) = cn"
  "initialized (streaming_state p w sid buf n cn ini) = ini"
  by (simp_all add: streaming_state_def streaming_transport_def)

lemma poll_buffered:
  "sendRequest_poll (StreamingHTTPTransport text_lib) rid
       (streaming_state p w sid (Some r) n cn ini) =
     (if isMatchingID (ID r) rid then (Done (Inr r), streaming_state p w sid None n cn ini)
      else (Again, streaming_state p w sid None n cn ini))"
  by (simp add: streaming_state_def streaming_transport_def sendRequest_poll_def handleMessage_def
        StreamingHTTPTransport_def StreamingHTTP_Receive_def)

lemma poll_empty:
  "sendRequest_poll (StreamingHTTPTransport text_lib) rid
       (streaming_state p w sid None n cn ini) =
     (Done (Inl (Wrapf ''failed to receive response'' (Errorf ''no response available''))),
      streaming_state p w sid None n False False)"
  by (simp add: streaming_state_def streaming_transport_def sendRequest_poll_def StreamingHTTPTransport_def
        StreamingHTTP_Receive_def)

lemma reply_matching:
  "isMatchingID (ID (reply 1)) 1" "isMatchingID (ID (reply 2)) 2"
  "\<not> isMatchingID (ID (reply 2)) 1" "\<not> isMatchingID (ID (reply 1)) 2"
  by (simp_all add: reply_def int64_of_float64_def is_int64_def)

subsection \<open>One goroutine alone\<close>

text \<open>
  A goroutine that is scheduled alone until it returns does what \<open>sendRequest\<close> does:
  the steps of the interleaving are the code of \<open>sendRequest\<close>, cut at the calls of the
  transport.
\<close>

lemma run_returned: "run T (replicate n 0) ([Returned r], c) = ([Returned r], c)"
  by (induction n) simp_all

lemma run_wait:
  "sendRequest_wait T k rid c = (Some r, c') \<Longrightarrow>
     run T (replicate (Suc k) 0) ([Polling rid k], c) = ([Returned r], c')"
proof (induction k arbitrary: c)
  case 0
  then show ?case by simp
next
  case (Suc k)
  obtain p c1 where poll: "sendRequest_poll T rid c = (p, c1)"
    by (cases "sendRequest_poll T rid c")
  show ?case
  proof (cases p)
    case Blocked
    with Suc.prems poll show ?thesis by simp
  next
    case (Done r')
    with Suc.prems poll have "r' = r" "c1 = c'" by simp_all
    with Done poll show ?thesis
      using run_returned [of T "Suc k" r c'] by simp
  next
    case Again
    with Suc.prems poll have "sendRequest_wait T k rid c1 = (Some r, c')" by simp
    from Suc.IH [OF this] Again poll show ?thesis by simp
  qed
qed

lemma run_alone_is_sendRequest:
  assumes "sendRequest T ctx method params c = (Some r, c')"
  shows "run T (replicate (Suc (Suc ctx)) 0) ([Calling method params ctx], c) =
           ([Returned r], c')"
proof (cases "sendRequest_send T method params c")
  case (Pair a c1)
  show ?thesis
  proof (cases a)
    case (Inl e)
    with Pair assms have "r = Inl e" "c1 = c'" by (simp_all add: sendRequest_def)
    with Pair Inl show ?thesis using run_returned [of T "Suc ctx" r c'] by simp
  next
    case (Inr rid)
    with Pair assms have "sendRequest_wait T ctx rid c1 = (Some r, c')"
      by (simp add: sendRequest_def)
    from run_wait [OF this] Pair Inr show ?thesis by simp
  qed
qed

subsection \<open>Concurrent requests\<close>

lemma send_first:
  "sendRequest_send (StreamingHTTPTransport text_lib) ''tools/call'' prm
      (streaming_state numbering_peer [] [] buf 0 True True) =
   (Inr 1, streaming_state numbering_peer [json_post ''tools/call''] [] (Some (reply 1)) 1
             True True)"
  by (simp add: streaming_state_def streaming_transport_def json_post_def client_defs streaming_defs numbering_peer_def)

lemma send_second:
  "sendRequest_send (StreamingHTTPTransport text_lib) ''tools/call'' prm
      (streaming_state numbering_peer [json_post ''tools/call''] [] buf 1 True True) =
   (Inr 2, streaming_state numbering_peer [json_post ''tools/call'', json_post ''tools/call'']
             [] (Some (reply 2)) 2 True True)"
  by (simp add: streaming_state_def streaming_transport_def json_post_def client_defs streaming_defs numbering_peer_def)

text \<open>
  Claim C1 asks that, with several requests in flight at once, every caller gets exactly
  its own response, because a single dispatch loop reads the transport. The client has no
  such loop: every caller reads the transport itself inside \<open>sendRequest\<close> and drops
  what is not its own. Two goroutines call a tool on one client; the first request gets
  the id 1 and the second the id 2.

  On a stream where the two responses arrive in the order 2, 1, under the schedule send,
  send, receive, receive, receive, receive: the first caller reads response 2 and drops
  it, then reads its own; the second caller finds the stream empty and stays blocked in
  \<open>Receive\<close> with its response gone.

  On the streaming HTTP transport, with a peer that answers the first request with
  response 1 and the second with response 2, under the schedule send, send, receive,
  receive, receive: the second answer overwrites the first in the transport's buffer,
  the first caller reads and drops it, and both callers return a receive error although
  both answers were delivered. Run one after the other, the same two calls return their
  own responses.
\<close>

theorem concurrent_requests_lose_responses:
  "run QueueTransport [0, 1, 0, 0, 1, 1]
       ([Calling ''tools/call'' (CallToolRequest ''a'' Map.empty) 2,
         Calling ''tools/call'' (CallToolRequest ''b'' Map.empty) 2],
        (NewClient [reply 2, reply 1])\<lparr>connected := True, initialized := True\<rparr>) =
     ([Returned (Inr (reply 1)), Polling 2 2],
      (NewClient [])\<lparr>connected := True, initialized := True, requestID := 2\<rparr>)
   \<and> (case run (StreamingHTTPTransport text_lib) [0, 1, 0, 0, 1]
           ([Calling ''tools/call'' (CallToolRequest ''a'' Map.empty) 2,
             Calling ''tools/call'' (CallToolRequest ''b'' Map.empty) 2],
            streaming_client numbering_peer True) of
      (gs, c') \<Rightarrow>
        gs = [Returned (Inl (Wrapf ''failed to receive response''
                               (Errorf ''no response available''))),
              Returned (Inl (Wrapf ''failed to receive response''
                               (Errorf ''no response available'')))]
        \<and> length (wire (sh_client (transport c'))) = 2)
   \<and> (case run (StreamingHTTPTransport text_lib) [0, 0, 1, 1]
           ([Calling ''tools/call'' (CallToolRequest ''a'' Map.empty) 2,
             Calling ''tools/call'' (CallToolRequest ''b'' Map.empty) 2],
            streaming_client numbering_peer True) of
      (gs, c') \<Rightarrow> gs = [Returned (Inr (reply 1)), Returned (Inr (reply 2))])"
proof -
  have stream: "run QueueTransport [0, 1, 0, 0, 1, 1]
       ([Calling ''tools/call'' (CallToolRequest ''a'' Map.empty) 2,
         Calling ''tools/call'' (CallToolRequest ''b'' Map.empty) 2],
        (NewClient [reply 2, reply 1])\<lparr>connected := True, initialized := True\<rparr>) =
     ([Returned (Inr (reply 1)), Polling 2 2],
      (NewClient [])\<lparr>connected := True, initialized := True, requestID := 2\<rparr>)"
    by (simp add: numeral_2_eq_2 sendRequest_send_def sendRequest_poll_def handleMessage_def
          QueueTransport_def NewClient_def wrap64_def NewRequest_def reply_matching)
  show ?thesis
    unfolding stream
    by (simp add: streaming_client_eq numeral_2_eq_2 send_first send_second poll_buffered
          poll_empty reply_matching wire_streaming_state)
qed

subsection \<open>Pagination\<close>

text \<open>
  Claim C2 asks that \<open>ListTools\<close> follow the cursor of every page until it is empty
  and return all tools in order. \<open>ListTools\<close> sends one request with the empty cursor
  and returns the tools of that one response. Against a server with three pages of two
  tools it returns the first two tools, although the first page names the next cursor
  \<open>p2\<close> and the three pages together hold six tools.
\<close>

theorem ListTools_first_page_only:
  "fst (ListTools PagedTransport decode_page (Suc 0)
          ((NewClient None)\<lparr>connected := True, initialized := True\<rparr>)) =
     Some (Inr [''t1'', ''t2''])
   \<and> snd (tool_page []) = ''p2''
   \<and> fst (tool_page []) @ fst (tool_page ''p2'') @ fst (tool_page ''p3'') =
       [''t1'', ''t2'', ''t3'', ''t4'', ''t5'', ''t6'']"
  by (simp add: ListTools_def ListToolsWithCursor_def client_defs PagedTransport_def
        decode_page_def tool_page_def NewClient_def)

subsection \<open>Operations before the handshake\<close>

text \<open>
  Claim C3. While the session is not initialized, each of \<open>ListTools\<close>,
  \<open>ListToolsWithCursor\<close>, \<open>CallTool\<close>, \<open>ListResources\<close>, \<open>ReadResource\<close>,
  \<open>ListPrompts\<close> and \<open>GetPrompt\<close> returns the error
  \<^verbatim>\<open>client not initialized\<close> and leaves the client as it was, the state of
  its transport included. This holds for every transport, so no method of the transport
  is called: with a transport under \<open>tap\<close>, the record of sent messages is part of that
  unchanged state.
\<close>

theorem not_initialized_is_local:
  assumes "\<not> initialized c"
  shows "ListTools T d1 ctx c = (Some (Inl (Errorf ''client not initialized'')), c)
       \<and> ListToolsWithCursor T d1 ctx cursor c =
           (Some (Inl (Errorf ''client not initialized'')), c)
       \<and> CallTool T d2 ctx name arguments c =
           (Some (Inl (Errorf ''client not initialized'')), c)
       \<and> ListResources T d3 ctx c = (Some (Inl (Errorf ''client not initialized'')), c)
       \<and> ReadResource T d4 ctx uri c = (Some (Inl (Errorf ''client not initialized'')), c)
       \<and> ListPrompts T d5 ctx c = (Some (Inl (Errorf ''client not initialized'')), c)
       \<and> GetPrompt T d6 ctx name arguments c =
           (Some (Inl (Errorf ''client not initialized'')), c)"
  using assms
  by (simp add: ListTools_def ListToolsWithCursor_def CallTool_def ListResources_def
        ReadResource_def ListPrompts_def GetPrompt_def IsInitialized_def)

theorem not_initialized_is_local_witness:
  "\<not> initialized (streaming_client numbering_peer False)
   \<and> ListTools (StreamingHTTPTransport text_lib)
        (\<lambda>j. Some \<lparr>Tools = [j], NextCursor = []\<rparr>) 2
        (streaming_client numbering_peer False) =
       (Some (Inl (Errorf ''client not initialized'')), streaming_client numbering_peer False)
   \<and> CallTool (StreamingHTTPTransport text_lib) Some 2 ''a'' Map.empty
        (streaming_client numbering_peer False) =
       (Some (Inl (Errorf ''client not initialized'')), streaming_client numbering_peer False)
   \<and> wire (sh_client (transport (streaming_client numbering_peer False))) = []"
proof -
  have h: "\<not> initialized (streaming_client numbering_peer False)"
    by (simp add: streaming_client_eq streaming_state_def streaming_transport_def)
  have w: "wire (sh_client (transport (streaming_client numbering_peer False))) = []"
    by (simp add: streaming_client_eq streaming_state_def streaming_transport_def)
  from not_initialized_is_local [OF h] h w show ?thesis by blast
qed

subsection \<open>Deadlines\<close>

text \<open>
  Claim C4 asks that a request whose response never comes return a timeout error when
  the deadline expires. The wait loop looks at the deadline only between two calls of
  \<open>Receive\<close>. On a stream whose peer stays silent \<open>Receive\<close> blocks, so as soon as
  the deadline is still live at the first pass the call never returns, whatever the
  deadline. On the streaming HTTP transport, with a peer that answers every request with
  an empty body, \<open>Receive\<close> fails at once and the call returns a receive error and
  marks the client disconnected; it does not return the timeout error either.
\<close>

theorem sendRequest_no_timeout:
  "(\<forall>k. fst (sendRequest SilentTransport (Suc k) ''tools/list'' (ListToolsRequest [])
              ((NewClient ())\<lparr>connected := True, initialized := True\<rparr>)) = None)
   \<and> (\<forall>k. (case sendRequest (StreamingHTTPTransport text_lib) (Suc k) ''tools/list''
                    (ListToolsRequest []) (streaming_client quiet_peer True) of
              (r, c') \<Rightarrow>
                r = Some (Inl (Wrapf ''failed to receive response''
                                 (Errorf ''no response available'')))
                \<and> \<not> connected c' \<and> \<not> initialized c'))"
  by (simp add: client_defs SilentTransport_def NewClient_def streaming_defs
        streaming_client_eq streaming_state_def streaming_transport_def quiet_peer_def)

subsection \<open>The handshake\<close>

lemma reply_fields: "Error (reply n) = None" "Result (reply n) = Some ''ok''"
  by (simp_all add: reply_def)

lemma send_initialize_vanishing:
  "sendRequest_send (StreamingHTTPTransport text_lib) ''initialize'' prm
      (streaming_state vanishing_peer [] [] None 0 True ini) =
   (Inr 1, streaming_state vanishing_peer [json_post ''initialize''] [] (Some (reply 1)) 1
             True ini)"
  by (simp add: streaming_state_def streaming_transport_def json_post_def client_defs streaming_defs vanishing_peer_def)

lemma sendRequest_initialize_vanishing:
  "sendRequest (StreamingHTTPTransport text_lib) (Suc k) ''initialize'' prm
      (streaming_state vanishing_peer [] [] None 0 True ini) =
   (Some (Inr (reply 1)),
    streaming_state vanishing_peer [json_post ''initialize''] [] None 1 True ini)"
  by (simp add: sendRequest_def send_initialize_vanishing poll_buffered reply_matching)

lemma notification_vanishing:
  "Send (StreamingHTTPTransport text_lib) (NewNotification ''notifications/initialized'' None)
      (transport (streaming_state vanishing_peer [json_post ''initialize''] [] None 1 True ini)) =
   (Some (Wrapf ''failed to send request'' (Errorf ''connection reset'')),
    transport (streaming_state vanishing_peer
                 [json_post ''initialize'', json_post ''notifications/initialized''] []
                 None 1 True ini))"
  by (simp add: streaming_state_def streaming_transport_def json_post_def NewNotification_def streaming_defs
        vanishing_peer_def)

lemma send_initialize_numbering:
  "sendRequest_send (StreamingHTTPTransport text_lib) ''initialize'' prm
      (streaming_state numbering_peer [] [] None 0 True ini) =
   (Inr 1, streaming_state numbering_peer [json_post ''initialize''] [] (Some (reply 1)) 1
             True ini)"
  by (simp add: streaming_state_def streaming_transport_def json_post_def client_defs streaming_defs numbering_peer_def)

lemma notification_numbering:
  "Send (StreamingHTTPTransport text_lib) (NewNotification ''notifications/initialized'' None)
      (transport (streaming_state numbering_peer [json_post ''initialize''] [] None 1 True ini)) =
   (None,
    transport (streaming_state numbering_peer
                 [json_post ''initialize'', json_post ''notifications/initialized''] []
                 (Some (reply 2)) 1 True ini))"
  by (simp add: streaming_state_def streaming_transport_def json_post_def NewNotification_def streaming_defs
        numbering_peer_def)

lemma sendRequest_initialize_numbering:
  "sendRequest (StreamingHTTPTransport text_lib) (Suc k) ''initialize'' prm
      (streaming_state numbering_peer [] [] None 0 True ini) =
   (Some (Inr (reply 1)),
    streaming_state numbering_peer [json_post ''initialize''] [] None 1 True ini)"
  by (simp add: sendRequest_def send_initialize_numbering poll_buffered reply_matching)

lemma sendRequest_send_failure_flips:
  assumes "IsConnected T (transport c)"
    and "Send T (NewRequest (wrap64 (requestID c + 1)) method params) (transport c) = (Some e, t)"
  shows "sendRequest T ctx method params c =
           (Some (Inl (Wrapf ''failed to send request'' e)),
            c\<lparr>requestID := wrap64 (requestID c + 1), transport := t,
               connected := False, initialized := False\<rparr>)"
  using assms by (simp add: sendRequest_def sendRequest_send_def Let_def)

lemma sendRequest_poll_failure_flips:
  assumes "Receive T (transport c) = Some (Inl e, t)"
  shows "sendRequest_poll T rid c =
           (Done (Inl (Wrapf ''failed to receive response'' e)),
            c\<lparr>transport := t, connected := False, initialized := False\<rparr>)"
  using assms by (simp add: sendRequest_poll_def)

text \<open>
  Claim C6 asks that every public operation during which a send or a receive of the
  transport fails set \<open>connected\<close> and \<open>initialized\<close> to false before it returns
  the error. \<open>sendRequest\<close> does so for its own send and receive (the two lemmas
  above). \<open>Initialize\<close> sends the \<^verbatim>\<open>notifications/initialized\<close> message
  with the transport directly: over the streaming HTTP transport, with a peer that answers
  the handshake and is gone afterwards, that send fails with an I/O error,
  \<open>Initialize\<close> returns it, and both flags are still true.
\<close>

theorem initialize_failed_notification_not_flipped:
  "(case Initialize (StreamingHTTPTransport text_lib) decode_init 2
           \<lparr>ClientName = ''app'', ClientVersion = ''1''\<rparr>
           (streaming_client vanishing_peer False) of
      (r, c') \<Rightarrow>
        r = Some (Inl (Wrapf ''failed to send initialized notification''
                   (Wrapf ''failed to send request'' (Errorf ''connection reset''))))
        \<and> connected c' \<and> initialized c')"
  by (simp add: Initialize_def Client_IsConnected_def streaming_client_eq numeral_2_eq_2
        sendRequest_initialize_vanishing notification_vanishing parseResult_def decode_init_def
        reply_fields flags_streaming_state)



lemma tap_wait_sent:
  "fst (transport (snd (sendRequest_wait (tap T) k rid c))) = fst (transport c)"
proof (induction k arbitrary: c)
  case 0
  show ?case by simp
next
  case (Suc k)
  obtain sent t where tr: "transport c = (sent, t)" by (cases "transport c")
  show ?case
  proof (cases "Receive T t")
    case None
    with tr show ?thesis by (simp add: sendRequest_poll_def tap_def)
  next
    case (Some a)
    obtain r t' where a: "a = (r, t')" by (cases a)
    show ?thesis
    proof (cases r)
      case (Inl e)
      with Some a tr show ?thesis by (simp add: sendRequest_poll_def tap_def)
    next
      case (Inr response)
      show ?thesis
      proof (cases "isMatchingID (ID response) rid")
        case True
        with Inr Some a tr show ?thesis by (simp add: sendRequest_poll_def tap_def)
      next
        case False
        with Inr Some a tr show ?thesis
          using Suc.IH [of "c\<lparr>transport := (sent, t')\<rparr>"]
          by (simp add: sendRequest_poll_def tap_def handleMessage_def)
      qed
    qed
  qed
qed

text \<open>
  Claim C7 asks that \<open>Initialize\<close>, called on a session that is initialized
  already, put no second handshake request on the wire. \<open>Initialize\<close> does not
  look at \<open>initialized\<close>. What holds instead: whenever the client and its transport
  are connected, whether or not the session is initialized, \<open>Initialize\<close> hands the
  transport a fresh \<^verbatim>\<open>initialize\<close> request that carries the next request id.
\<close>

theorem initialize_sends_regardless:
  assumes "connected c" and "IsConnected T (snd (transport c))"
  shows "\<exists>rest. fst (transport (snd (Initialize (tap T) decode ctx clientInfo c))) =
           fst (transport c) @
           NewRequest (wrap64 (requestID c + 1)) ''initialize'' (InitializeRequest clientInfo) # rest"
proof -
  let ?req = "NewRequest (wrap64 (requestID c + 1)) ''initialize'' (InitializeRequest clientInfo)"
  obtain sent t where tr: "transport c = (sent, t)" by (cases "transport c")
  obtain e t' where snd: "Send T ?req t = (e, t')" by (cases "Send T ?req t")
  show ?thesis
  proof (cases e)
    case (Some err)
    with assms tr snd show ?thesis
      by (simp add: Initialize_def Client_IsConnected_def sendRequest_def sendRequest_send_def
            tap_def Let_def)
  next
    case None
    let ?c1 = "c\<lparr>requestID := wrap64 (requestID c + 1), transport := (sent @ [?req], t')\<rparr>"
    have sendphase: "sendRequest_send (tap T) ''initialize'' (InitializeRequest clientInfo) c =
            (Inr (wrap64 (requestID c + 1)), ?c1)"
      using assms tr snd None by (simp add: sendRequest_send_def tap_def Let_def)
    obtain r c2 where w: "sendRequest_wait (tap T) ctx (wrap64 (requestID c + 1)) ?c1 = (r, c2)"
      by (cases "sendRequest_wait (tap T) ctx (wrap64 (requestID c + 1)) ?c1")
    have log2: "fst (transport c2) = sent @ [?req]"
      using tap_wait_sent [of T ctx "wrap64 (requestID c + 1)" ?c1] w by simp
    obtain sent2 t2 where tr2: "transport c2 = (sent2, t2)" by (cases "transport c2")
    with log2 have s2: "sent2 = sent @ [?req]" by simp
    have sr: "sendRequest (tap T) ctx ''initialize'' (InitializeRequest clientInfo) c = (r, c2)"
      using sendphase w by (simp add: sendRequest_def)
    show ?thesis
      using assms(1) sr tr tr2 s2
      by (auto simp: Initialize_def Client_IsConnected_def tap_def Let_def
               split: option.splits sum.splits prod.splits)
  qed
qed

theorem initialize_sends_regardless_witness:
  "connected ((NewClient ([], ()))\<lparr>connected := True, initialized := True\<rparr>)
   \<and> IsConnected SilentTransport
         (snd (transport ((NewClient ([], ()))\<lparr>connected := True, initialized := True\<rparr>)))
   \<and> initialized ((NewClient ([], ()))\<lparr>connected := True, initialized := True\<rparr>)
   \<and> (\<exists>rest. fst (transport (snd (Initialize (tap SilentTransport) decode_init 2
                 \<lparr>ClientName = ''app'', ClientVersion = ''1''\<rparr>
                 ((NewClient ([], ()))\<lparr>connected := True, initialized := True\<rparr>)))) =
           NewRequest 1 ''initialize''
             (InitializeRequest \<lparr>ClientName = ''app'', ClientVersion = ''1''\<rparr>) # rest)"
proof -
  let ?c = "(NewClient ([], ()))\<lparr>connected := True, initialized := True\<rparr>
              :: (string Message list \<times> unit, unit) Client"
  have h1: "connected ?c" by simp
  have h2: "IsConnected SilentTransport (snd (transport ?c))"
    by (simp add: SilentTransport_def)
  have h3: "initialized ?c" by simp
  have id: "wrap64 (requestID ?c + 1) = 1" by (simp add: NewClient_def wrap64_def)
  have log: "fst (transport ?c) = []" by (simp add: NewClient_def)
  from initialize_sends_regardless [OF h1 h2, of decode_init 2
         "\<lparr>ClientName = ''app'', ClientVersion = ''1''\<rparr>"]
  show ?thesis unfolding id log using h1 h2 h3 by simp
qed

text \<open>
  The claim C7 as stated fails: a client that is initialized already, over the streaming
  HTTP transport with nothing on the wire yet, calls \<open>Initialize\<close>. The call
  returns without an error, and the wire then holds a second handshake request and the
  notification after it.
\<close>

theorem initialize_twice_resends:
  "initialized (streaming_client numbering_peer True)
   \<and> wire (sh_client (transport (streaming_client numbering_peer True))) = []
   \<and> fst (Initialize (StreamingHTTPTransport text_lib) decode_init 2
             \<lparr>ClientName = ''app'', ClientVersion = ''1''\<rparr>
             (streaming_client numbering_peer True)) = Some (Inr ())
   \<and> wire (sh_client (transport (snd
         (Initialize (StreamingHTTPTransport text_lib) decode_init 2
            \<lparr>ClientName = ''app'', ClientVersion = ''1''\<rparr>
            (streaming_client numbering_peer True))))) =
       [json_post ''initialize'', json_post ''notifications/initialized'']"
  by (simp add: Initialize_def Client_IsConnected_def streaming_client_eq numeral_2_eq_2
        sendRequest_initialize_numbering notification_numbering parseResult_def
        decode_init_def reply_fields flags_streaming_state wire_streaming_state)


subsection \<open>The streaming HTTP transport\<close>

lemma token_after_snoc:
  "token_after p tok seen (rs @ [r]) =
     next_token p (token_after p tok seen rs) (seen @ rs @ [r])"
  by (induction rs arbitrary: tok seen) simp_all

lemma wire_follows_snoc:
  "wire_follows p url tok seen (rs @ [r]) \<longleftrightarrow>
     wire_follows p url tok seen rs \<and> posts_with_token url (token_after p tok seen rs) r"
  by (induction rs arbitrary: tok seen) auto

lemma posts_with_token_request:
  "posts_with_token (sh_baseURL h @ sh_endpoint h) (sh_sessionID h) (StreamingHTTP_request h data)"
  by (simp add: posts_with_token_def StreamingHTTP_request_def)

lemma Send_session_inv:
  assumes "session_inv p url h"
  shows "session_inv p url (snd (StreamingHTTP_Send lib message h))"
proof (cases "Marshal lib message")
  case None
  with assms show ?thesis by (simp add: StreamingHTTP_Send_def session_inv_def)
next
  case (Some data)
  show ?thesis
  proof (cases "URLValid lib (sh_baseURL h @ sh_endpoint h)")
    case False
    with Some assms show ?thesis by (simp add: StreamingHTTP_Send_def session_inv_def)
  next
    case True
    let ?req = "StreamingHTTP_request h data"
    let ?w = "wire (sh_client h) @ [?req]"
    have ok: "posts_with_token url (sh_sessionID h) ?req"
      using posts_with_token_request [of h data] assms by (simp add: session_inv_def)
    have wf: "wire_follows p url [] [] ?w"
      using assms ok by (simp add: wire_follows_snoc session_inv_def)
    have tk: "token_after p [] [] ?w = next_token p (sh_sessionID h) ?w"
      using assms by (simp add: token_after_snoc session_inv_def)
    have pr: "peer (sh_client h) = p" using assms by (simp add: session_inv_def)
    show ?thesis
    proof (cases "p ?w")
      case (Inl e)
      with Some True assms wf tk pr show ?thesis
        by (simp add: StreamingHTTP_Send_def session_inv_def Do_def next_token_def)
    next
      case (Inr resp)
      with Some True assms wf tk pr show ?thesis
        by (auto simp: StreamingHTTP_Send_def session_inv_def Do_def next_token_def Let_def
                 split: sum.splits option.splits)
    qed
  qed
qed

lemma Receive_session_inv:
  "session_inv p url h \<Longrightarrow> session_inv p url (snd (StreamingHTTP_Receive h))"
  by (auto simp: StreamingHTTP_Receive_def session_inv_def split: option.splits)

lemma run_session_inv:
  "session_inv p url h \<Longrightarrow> session_inv p url (StreamingHTTP_run lib ops h)"
proof (induction ops arbitrary: h)
  case Nil
  then show ?case by simp
next
  case (Cons op ops)
  then show ?case
    by (cases op) (simp_all add: Send_session_inv Receive_session_inv)
qed

lemma Send_then_Receive:
  assumes "sh_connected h"
    and "Marshal lib message = Some data"
    and "URLValid lib (sh_baseURL h @ sh_endpoint h)"
    and "peer (sh_client h) (wire (sh_client h) @ [StreamingHTTP_request h data]) = Inr resp"
    and "RespBodyErr resp = None"
    and "RespBody resp \<noteq> []"
    and "Unmarshal lib (RespBody resp) = Some response"
  shows "fst (StreamingHTTP_Send lib message h) = None
       \<and> fst (StreamingHTTP_Receive (snd (StreamingHTTP_Send lib message h))) = Inr response
       \<and> wire (sh_client (snd (StreamingHTTP_Send lib message h))) =
           wire (sh_client h) @ [StreamingHTTP_request h data]"
  using assms
  by (simp add: StreamingHTTP_Send_def StreamingHTTP_Receive_def Do_def ReadAll_def Let_def)


lemma Send_appends_request:
  assumes "sh_connected h"
    and "Marshal lib message = Some data"
    and "URLValid lib (sh_baseURL h @ sh_endpoint h)"
  shows "wire (sh_client (snd (StreamingHTTP_Send lib message h))) =
           wire (sh_client h) @ [StreamingHTTP_request h data]"
  using assms
  by (auto simp: StreamingHTTP_Send_def Do_def Let_def split: sum.splits option.splits)

text \<open>
  What holds of every run of this transport: on a connected transport that starts with an
  empty wire and no session token, after any run of \<open>Send\<close> and \<open>Receive\<close>
  calls, every request on the wire is a \<^verbatim>\<open>POST\<close> to the one URL
  \<^verbatim>\<open>baseURL + endpoint\<close> and carries as its \<^verbatim>\<open>Mcp-Session-Id\<close> header the
  token most recently captured from a response header before it; a further \<open>Send\<close>
  of a message that can be encoded puts exactly one more such request on the wire; and
  when the answer to that request has a body that decodes to a message, \<open>Send\<close>
  succeeds and the next \<open>Receive\<close> returns that message.
\<close>

lemma streaming_http_run:
  assumes "sh_connected h" and "wire (sh_client h) = []" and "sh_sessionID h = []"
  shows "wire_follows (peer (sh_client h)) (sh_baseURL h @ sh_endpoint h) [] []
           (wire (sh_client (StreamingHTTP_run lib ops h)))
       \<and> (\<forall>message data.
             Marshal lib message = Some data \<and> URLValid lib (sh_baseURL h @ sh_endpoint h)
             \<longrightarrow> wire (sh_client (snd (StreamingHTTP_Send lib message
                                              (StreamingHTTP_run lib ops h)))) =
                   wire (sh_client (StreamingHTTP_run lib ops h)) @
                   [StreamingHTTP_request (StreamingHTTP_run lib ops h) data])
       \<and> (\<forall>message data resp response.
             Marshal lib message = Some data \<and> URLValid lib (sh_baseURL h @ sh_endpoint h)
             \<and> peer (sh_client h)
                   (wire (sh_client (StreamingHTTP_run lib ops h)) @
                    [StreamingHTTP_request (StreamingHTTP_run lib ops h) data]) = Inr resp
             \<and> RespBodyErr resp = None \<and> RespBody resp \<noteq> []
             \<and> Unmarshal lib (RespBody resp) = Some response
             \<longrightarrow> fst (StreamingHTTP_Send lib message (StreamingHTTP_run lib ops h)) = None
                 \<and> fst (StreamingHTTP_Receive
                          (snd (StreamingHTTP_Send lib message (StreamingHTTP_run lib ops h)))) =
                     Inr response)"
proof -
  let ?p = "peer (sh_client h)" and ?url = "sh_baseURL h @ sh_endpoint h"
  let ?h = "StreamingHTTP_run lib ops h"
  have "session_inv ?p ?url h" using assms by (simp add: session_inv_def)
  then have inv: "session_inv ?p ?url ?h" by (rule run_session_inv)
  then have c: "sh_connected ?h" and u: "sh_baseURL ?h @ sh_endpoint ?h = ?url"
    and pe: "peer (sh_client ?h) = ?p"
    and wf: "wire_follows ?p ?url [] [] (wire (sh_client ?h))"
    by (simp_all add: session_inv_def)
  have one: "\<forall>message data.
             Marshal lib message = Some data \<and> URLValid lib ?url
             \<longrightarrow> wire (sh_client (snd (StreamingHTTP_Send lib message ?h))) =
                   wire (sh_client ?h) @ [StreamingHTTP_request ?h data]"
    using Send_appends_request [OF c] u by simp
  have two: "\<forall>message data resp response.
             Marshal lib message = Some data \<and> URLValid lib ?url
             \<and> ?p (wire (sh_client ?h) @ [StreamingHTTP_request ?h data]) = Inr resp
             \<and> RespBodyErr resp = None \<and> RespBody resp \<noteq> []
             \<and> Unmarshal lib (RespBody resp) = Some response
             \<longrightarrow> fst (StreamingHTTP_Send lib message ?h) = None
                 \<and> fst (StreamingHTTP_Receive (snd (StreamingHTTP_Send lib message ?h))) =
                     Inr response"
    using Send_then_Receive [OF c] u pe by metis
  from wf one two show ?thesis by blast
qed

text \<open>
  Claim C9 asks, in its last part, that \<open>Receive\<close> return the body of the most
  recent \<^verbatim>\<open>POST\<close> response. \<open>Send\<close> returns early on an empty body and
  leaves the buffer \<open>lastResponse\<close> as it was. A request is sent and answered with
  the response 1, which is not read; a notification is sent next and answered with an
  empty body; \<open>Receive\<close> then returns the response 1, the body of the
  \<^verbatim>\<open>POST\<close> response before the most recent one, and a second \<open>Receive\<close>
  finds nothing.
\<close>

theorem streaming_http_stale_response:
  "once_peer [json_post ''tools/list'', json_post ''notifications/initialized''] =
     ok_response []
   \<and> StreamingHTTP_Receive
        (StreamingHTTP_run text_lib
           [OpSend (NewRequest 1 ''tools/list'' (ListToolsRequest [])),
            OpSend (NewNotification ''notifications/initialized'' None)]
           (streaming_transport once_peer [] [] None)) =
       (Inr (reply 1),
        streaming_transport once_peer
          [json_post ''tools/list'', json_post ''notifications/initialized''] [] None)
   \<and> StreamingHTTP_Receive
        (streaming_transport once_peer
           [json_post ''tools/list'', json_post ''notifications/initialized''] [] None) =
       (Inl (Errorf ''no response available''),
        streaming_transport once_peer
          [json_post ''tools/list'', json_post ''notifications/initialized''] [] None)"
  by (simp add: streaming_transport_def json_post_def NewRequest_def NewNotification_def
        streaming_defs once_peer_def whole_def)

subsection \<open>The event-stream transport\<close>

lemma text_lib_simps:
  "Marshal text_lib m = Some (Method m)"
  "URLValid text_lib url"
  "TrimSpace text_lib = trim"
  "Unmarshal text_lib ''reply 1'' = Some (reply 1)"
  "Unmarshal text_lib ''reply 2'' = Some (reply 2)"
  by (simp_all add: text_lib_def HasPrefix_def ParseInt_def ParseUint_def digit_of_def)

lemmas sse_defs =
  SSE_Send_def sendInitializeRequest_def sendMessageToSession_def SSE_Receive_def
  scanSessionEndpoint_def scanEvent_def SSE_get_def SSE_post_def Do_def ReadAll_def
  dropCR_def HasPrefix_def trim_def event_def event_stream_def ok_response_def whole_def
  sse_transport_def sse_get_def sse_session_post_def sse_peer_def sse_after_handshake_def

text \<open>
  Claim C8 asks that the handshake keep the open event stream and that every later
  \<open>Receive\<close> with an empty buffer read the next \<^verbatim>\<open>data:\<close> event from it.
  The handshake and every \<open>Receive\<close> make a scanner of their own on the body and drop
  it when they return, and with it the bytes it has read beyond the line it returned
  with.

  Three sessions, each from a connected transport that has sent nothing yet; the
  handshake request is answered with an empty body, and the responses 1 and 2 come as
  message events on the stream. In each of them the handshake send makes the
  \<^verbatim>\<open>GET\<close> and the \<^verbatim>\<open>POST\<close> to the endpoint, keeps the stream and returns
  without an error.

  When the endpoint event and the message event with the response 1 arrive in one piece,
  nothing is left of the stream after the handshake, and the \<open>Receive\<close> after it
  returns \<^verbatim>\<open>no response available\<close>: the response 1 is gone.

  When the endpoint event arrives alone and the two message events arrive in one piece,
  the first \<open>Receive\<close> returns the response 1 and the second returns
  \<^verbatim>\<open>no response available\<close>: the response 2 is gone.

  When each event arrives in a piece of its own, the two calls of \<open>Receive\<close>
  return the responses 1 and 2.
\<close>

theorem SSE_read_ahead_loses_events:
  "SSE_Send text_lib
      (NewRequest 1 ''initialize''
         (InitializeRequest \<lparr>ClientName = ''app'', ClientVersion = ''1''\<rparr>))
      (sse_transport
         (sse_peer [event ''endpoint'' ''/messages?id=7'' @ event ''message'' ''reply 1''])
         [] [] False None None) =
     Some (None,
           sse_after_handshake
             [event ''endpoint'' ''/messages?id=7'' @ event ''message'' ''reply 1''] [])
   \<and> SSE_Receive text_lib
        (sse_after_handshake
           [event ''endpoint'' ''/messages?id=7'' @ event ''message'' ''reply 1''] []) =
       Some (Inl (Errorf ''no response available''),
             sse_after_handshake
               [event ''endpoint'' ''/messages?id=7'' @ event ''message'' ''reply 1''] [])
   \<and> SSE_Send text_lib
        (NewRequest 1 ''initialize''
           (InitializeRequest \<lparr>ClientName = ''app'', ClientVersion = ''1''\<rparr>))
        (sse_transport
           (sse_peer [event ''endpoint'' ''/messages?id=7'',
                      event ''message'' ''reply 1'' @ event ''message'' ''reply 2''])
           [] [] False None None) =
       Some (None,
             sse_after_handshake
               [event ''endpoint'' ''/messages?id=7'',
                event ''message'' ''reply 1'' @ event ''message'' ''reply 2'']
               [event ''message'' ''reply 1'' @ event ''message'' ''reply 2''])
   \<and> SSE_Receive text_lib
        (sse_after_handshake
           [event ''endpoint'' ''/messages?id=7'',
            event ''message'' ''reply 1'' @ event ''message'' ''reply 2'']
           [event ''message'' ''reply 1'' @ event ''message'' ''reply 2'']) =
       Some (Inr (reply 1),
             sse_after_handshake
               [event ''endpoint'' ''/messages?id=7'',
                event ''message'' ''reply 1'' @ event ''message'' ''reply 2''] [])
   \<and> SSE_Receive text_lib
        (sse_after_handshake
           [event ''endpoint'' ''/messages?id=7'',
            event ''message'' ''reply 1'' @ event ''message'' ''reply 2''] []) =
       Some (Inl (Errorf ''no response available''),
             sse_after_handshake
               [event ''endpoint'' ''/messages?id=7'',
                event ''message'' ''reply 1'' @ event ''message'' ''reply 2''] [])
   \<and> SSE_Send text_lib
        (NewRequest 1 ''initialize''
           (InitializeRequest \<lparr>ClientName = ''app'', ClientVersion = ''1''\<rparr>))
        (sse_transport
           (sse_peer [event ''endpoint'' ''/messages?id=7'', event ''message'' ''reply 1'',
                      event ''message'' ''reply 2''])
           [] [] False None None) =
       Some (None,
             sse_after_handshake
               [event ''endpoint'' ''/messages?id=7'', event ''message'' ''reply 1'',
                event ''message'' ''reply 2'']
               [event ''message'' ''reply 1'', event ''message'' ''reply 2''])
   \<and> SSE_Receive text_lib
        (sse_after_handshake
           [event ''endpoint'' ''/messages?id=7'', event ''message'' ''reply 1'',
            event ''message'' ''reply 2'']
           [event ''message'' ''reply 1'', event ''message'' ''reply 2'']) =
       Some (Inr (reply 1),
             sse_after_handshake
               [event ''endpoint'' ''/messages?id=7'', event ''message'' ''reply 1'',
                event ''message'' ''reply 2'']
               [event ''message'' ''reply 2''])
   \<and> SSE_Receive text_lib
        (sse_after_handshake
           [event ''endpoint'' ''/messages?id=7'', event ''message'' ''reply 1'',
            event ''message'' ''reply 2'']
           [event ''message'' ''reply 2'']) =
       Some (Inr (reply 2),
             sse_after_handshake
               [event ''endpoint'' ''/messages?id=7'', event ''message'' ''reply 1'',
                event ''message'' ''reply 2''] [])"
  by (simp add: sse_defs text_lib_simps NewRequest_def)

end
